theory Spec2Isabelle
  imports Main
begin

chapter \<open>wtfport: port discovery, process termination and the dashboard\<close>

text \<open>
  A shallow embedding of the TypeScript sources of wtfport: the two platform adapters
  (\<^verbatim>\<open>platform/unix-adapter.ts\<close>, \<^verbatim>\<open>platform/windows-adapter.ts\<close>), the
  port actions (\<^verbatim>\<open>actions/port-actions.ts\<close>), the process utilities
  (\<^verbatim>\<open>utils/process-utils.ts\<close>) and the dashboard with its keyboard handlers
  (\<^verbatim>\<open>tui/dashboard.ts\<close>, \<^verbatim>\<open>tui/dashboard-handlers.ts\<close>).

  Conventions of the embedding.
  \<^item> A JavaScript string is a \<^typ>\<open>string\<close>; the texts handled here (tool output, key
    names) are ASCII, and whitespace is the ASCII whitespace of \<^verbatim>\<open>\s\<close> and
    \<^verbatim>\<open>trim()\<close>.
  \<^item> A JavaScript number that is the result of \<^verbatim>\<open>parseInt\<close> is an
    \<^typ>\<open>int option\<close>, \<^term>\<open>None\<close> being \<^verbatim>\<open>NaN\<close>; a number known to
    be an integer is an \<^typ>\<open>int\<close>.
  \<^item> An \<^verbatim>\<open>async\<close> function is a state transformer; a rejected promise or a
    thrown exception is the left injection of a sum.
  \<^item> Everything outside the process (the tools that are spawned, the clock, the
    terminal size) is a parameter of the function that consults it.
\<close>

section \<open>JavaScript strings and numbers\<close>

type_synonym jsnum = "int option"

text \<open>Strict equality \<^verbatim>\<open>===\<close> of numbers: \<^verbatim>\<open>NaN\<close> equals nothing.\<close>

definition strict_eq :: "jsnum \<Rightarrow> jsnum \<Rightarrow> bool" where
  "strict_eq a b = (case a of None \<Rightarrow> False | Some x \<Rightarrow> (case b of None \<Rightarrow> False | Some y \<Rightarrow> x = y))"

definition isWhitespace :: "char \<Rightarrow> bool" where
  "isWhitespace c =
     (c = CHR '' '' \<or> c = CHR 0x09 \<or> c = CHR 0x0A \<or> c = CHR 0x0B \<or> c = CHR 0x0C \<or> c = CHR 0x0D)"

definition isDigit :: "char \<Rightarrow> bool" where
  "isDigit c = (48 \<le> (of_char c :: nat) \<and> (of_char c :: nat) \<le> 57)"

text \<open>\<^verbatim>\<open>String.prototype.trim\<close>.\<close>

definition trim :: "string \<Rightarrow> string" where
  "trim s = rev (dropWhile isWhitespace (rev (dropWhile isWhitespace s)))"

text \<open>\<^verbatim>\<open>s.split(c)\<close> for a one-character separator: never an empty list.\<close>

fun split_on :: "char \<Rightarrow> string \<Rightarrow> string list" where
  "split_on c [] = [[]]"
| "split_on c (x # xs) =
     (if x = c then [] # split_on c xs
      else (case split_on c xs of [] \<Rightarrow> [[x]] | w # ws \<Rightarrow> (x # w) # ws))"

text \<open>\<^verbatim>\<open>s.startsWith(p)\<close> and \<^verbatim>\<open>s.includes(p)\<close>.\<close>

definition startsWith :: "string \<Rightarrow> string \<Rightarrow> bool" where
  "startsWith s p = (take (length p) s = p)"

fun includes_str :: "string \<Rightarrow> string \<Rightarrow> bool" where
  "includes_str [] p = (p = [])"
| "includes_str (x # xs) p = (startsWith (x # xs) p \<or> includes_str xs p)"

text \<open>
  \<^verbatim>\<open>parseInt(s, 10)\<close>: leading whitespace is skipped, one sign is read, then the
  longest run of decimal digits; no digit at all gives \<^verbatim>\<open>NaN\<close>.
\<close>

definition digitsValue :: "string \<Rightarrow> int" where
  "digitsValue ds = foldl (\<lambda>a c. 10 * a + (int (of_char c) - 48)) 0 ds"

definition parseInt :: "string \<Rightarrow> jsnum" where
  "parseInt s =
     (let t = dropWhile isWhitespace s;
          neg = (case t of [] \<Rightarrow> False | c # _ \<Rightarrow> c = CHR ''-'');
          u = (case t of [] \<Rightarrow> [] | c # r \<Rightarrow> if c = CHR ''-'' \<or> c = CHR ''+'' then r else t);
          ds = takeWhile isDigit u
      in if ds = [] then None else Some (if neg then - digitsValue ds else digitsValue ds))"

text \<open>\<^verbatim>\<open>Number.prototype.toString\<close> on integers (and on \<^verbatim>\<open>NaN\<close>).\<close>

definition digitChar :: "nat \<Rightarrow> char" where
  "digitChar d = ''0123456789'' ! (d mod 10)"

fun natToString :: "nat \<Rightarrow> string" where
  "natToString n = (if n < 10 then [digitChar n] else natToString (n div 10) @ [digitChar n])"

declare natToString.simps [simp del]

definition intToString :: "int \<Rightarrow> string" where
  "intToString i = (if i < 0 then CHR ''-'' # natToString (nat (- i)) else natToString (nat i))"

definition numToString :: "jsnum \<Rightarrow> string" where
  "numToString n = (case n of None \<Rightarrow> ''NaN'' | Some i \<Rightarrow> intToString i)"

section \<open>The port model\<close>

datatype protocol = TCP | UDP

text \<open>
  \<^verbatim>\<open>PortInfo\<close> (its declaration, \<^verbatim>\<open>port/types.ts\<close>, is given by the fields the
  adapters fill in). \<^verbatim>\<open>lifetime\<close> and \<^verbatim>\<open>type\<close> are optional, \<^verbatim>\<open>cwd\<close> is
  nullable.
\<close>

record PortInfo =
  port :: int
  protocol :: protocol
  pid :: jsnum
  processName :: string
  command :: string
  cwd :: "string option"
  user :: string
  lifetime :: "int option"
  ptype :: "string option"

record ProcessInfo =
  pi_command :: string
  pi_cwd :: "string option"
  pi_lifetime :: "int option"

section \<open>Spawned tools and the effects of an adapter\<close>

text \<open>
  \<^verbatim>\<open>spawnProcess\<close> resolves to the tool's output and exit code, or rejects (the
  tool could not be started). What a tool answers is decided outside the program: the
  world \<open>'w\<close> and its transition \<open>run\<close> are parameters. Every effect the claims speak
  about is recorded, in order, in a trace.
\<close>

record proc_result =
  stdout :: string
  stderr :: string
  exitCode :: int

datatype spawn_outcome = Rejected | Resolved proc_result

datatype event = Spawn "string list" | Wait nat | LogError string

record 'w sys =
  world :: 'w
  trace :: "event list"

definition spawnProcess ::
  "('w \<Rightarrow> string list \<Rightarrow> spawn_outcome \<times> 'w) \<Rightarrow> string list \<Rightarrow> 'w sys \<Rightarrow> spawn_outcome \<times> 'w sys" where
  "spawnProcess run argv s =
     (case run (world s) argv of
        (r, w') \<Rightarrow> (r, s\<lparr>world := w', trace := trace s @ [Spawn argv]\<rparr>))"

text \<open>\<^verbatim>\<open>await new Promise((resolve) => setTimeout(resolve, ms))\<close>.\<close>

definition wait :: "nat \<Rightarrow> 'w sys \<Rightarrow> 'w sys" where
  "wait ms s = s\<lparr>trace := trace s @ [Wait ms]\<rparr>"

definition logError :: "string \<Rightarrow> 'w sys \<Rightarrow> 'w sys" where
  "logError msg s = s\<lparr>trace := trace s @ [LogError msg]\<rparr>"

subsection \<open>The process metadata cache\<close>

text \<open>
  Modelled from the spec: \<^verbatim>\<open>CacheManager\<close> (\<^verbatim>\<open>platform/cache-manager.ts\<close> is not
  among the sources). The spec's contract: \<open>get(pid)\<close> returns the entry if present and
  unexpired, else a miss; \<open>set(pid, entry)\<close> inserts or overwrites and records the
  insertion time; \<open>delete(pid)\<close> removes immediately; entries expire a fixed duration
  (the time to live) after insertion.
\<close>

record cache_entry =
  entry :: ProcessInfo
  insertedAt :: nat

type_synonym cache = "jsnum \<rightharpoonup> cache_entry"

definition cache_get :: "nat \<Rightarrow> nat \<Rightarrow> cache \<Rightarrow> jsnum \<Rightarrow> ProcessInfo option" where
  "cache_get ttl now c k =
     (case c k of None \<Rightarrow> None
      | Some e \<Rightarrow> if now < insertedAt e + ttl then Some (entry e) else None)"

definition cache_set :: "nat \<Rightarrow> cache \<Rightarrow> jsnum \<Rightarrow> ProcessInfo \<Rightarrow> cache" where
  "cache_set now c k v = c(k \<mapsto> \<lparr>entry = v, insertedAt = now\<rparr>)"

definition cache_delete :: "cache \<Rightarrow> jsnum \<Rightarrow> cache" where
  "cache_delete c k = c(k := None)"

text \<open>An adapter instance: the system it acts on and its private cache.\<close>

record 'w adapter =
  sys :: "'w sys"
  processInfoCache :: cache

definition invalidateProcessCache :: "jsnum \<Rightarrow> 'w adapter \<Rightarrow> 'w adapter" where
  "invalidateProcessCache p a = a\<lparr>processInfoCache := cache_delete (processInfoCache a) p\<rparr>"

definition onSys :: "('w sys \<Rightarrow> 'w sys) \<Rightarrow> 'w adapter \<Rightarrow> 'w adapter" where
  "onSys f a = a\<lparr>sys := f (sys a)\<rparr>"

definition spawnA ::
  "('w \<Rightarrow> string list \<Rightarrow> spawn_outcome \<times> 'w) \<Rightarrow> string list \<Rightarrow> 'w adapter \<Rightarrow> spawn_outcome \<times> 'w adapter" where
  "spawnA run argv a = (case spawnProcess run argv (sys a) of (r, s') \<Rightarrow> (r, a\<lparr>sys := s'\<rparr>))"

section \<open>Process termination\<close>

text \<open>
  \<^verbatim>\<open>killProcess\<close> is a \<^verbatim>\<open>try\<close> block with a \<^verbatim>\<open>catch\<close>. The body either
  throws (a spawn rejected: \<^term>\<open>Inl ()\<close>) or returns a boolean. The early
  \<^verbatim>\<open>return false\<close> after a failed graceful request leaves the body before the cache
  is touched.
\<close>

definition finishKill :: "jsnum \<Rightarrow> bool \<Rightarrow> 'w adapter \<Rightarrow> (unit + bool) \<times> 'w adapter" where
  "finishKill p killed a = (Inr killed, if killed then invalidateProcessCache p a else a)"

definition logIf :: "bool \<Rightarrow> string \<Rightarrow> 'w adapter \<Rightarrow> 'w adapter" where
  "logIf b msg a = (if b then onSys (logError msg) a else a)"

definition unix_killProcess_try ::
  "('w \<Rightarrow> string list \<Rightarrow> spawn_outcome \<times> 'w) \<Rightarrow> jsnum \<Rightarrow> bool \<Rightarrow> 'w adapter \<Rightarrow> (unit + bool) \<times> 'w adapter" where
  "unix_killProcess_try run p force a =
     (if force then
        (case spawnA run [''kill'', ''-9'', numToString p] a of
           (Rejected, a1) \<Rightarrow> (Inl (), a1)
         | (Resolved proc, a1) \<Rightarrow>
             finishKill p (exitCode proc = 0)
               (logIf (exitCode proc \<noteq> 0 \<and> stderr proc \<noteq> [])
                  (''Failed to kill process '' @ numToString p @ '': '' @ stderr proc) a1))
      else
        (case spawnA run [''kill'', ''-TERM'', numToString p] a of
           (Rejected, a1) \<Rightarrow> (Inl (), a1)
         | (Resolved proc, a1) \<Rightarrow>
             if exitCode proc \<noteq> 0 then
               (Inr False,
                logIf (stderr proc \<noteq> [])
                  (''Failed to send SIGTERM to process '' @ numToString p @ '': '' @ stderr proc) a1)
             else
               (case spawnA run [''ps'', ''-p'', numToString p] (onSys (wait 1000) a1) of
                  (Rejected, a2) \<Rightarrow> (Inl (), a2)
                | (Resolved checkProc, a2) \<Rightarrow>
                    if exitCode checkProc = 0 then
                      (case spawnA run [''kill'', ''-9'', numToString p] a2 of
                         (Rejected, a3) \<Rightarrow> (Inl (), a3)
                       | (Resolved forceProc, a3) \<Rightarrow>
                           finishKill p (exitCode forceProc = 0)
                             (logIf (exitCode forceProc \<noteq> 0 \<and> stderr forceProc \<noteq> [])
                                (''Failed to force kill process '' @ numToString p @ '': '' @ stderr forceProc) a3))
                    else finishKill p True a2)))"

definition windows_killProcess_try ::
  "('w \<Rightarrow> string list \<Rightarrow> spawn_outcome \<times> 'w) \<Rightarrow> jsnum \<Rightarrow> bool \<Rightarrow> 'w adapter \<Rightarrow> (unit + bool) \<times> 'w adapter" where
  "windows_killProcess_try run p force a =
     (if force then
        (case spawnA run [''taskkill'', ''/F'', ''/PID'', numToString p] a of
           (Rejected, a1) \<Rightarrow> (Inl (), a1)
         | (Resolved proc, a1) \<Rightarrow>
             finishKill p (exitCode proc = 0)
               (logIf (exitCode proc \<noteq> 0 \<and> stderr proc \<noteq> [])
                  (''Failed to force kill process '' @ numToString p @ '': '' @ stderr proc) a1))
      else
        (case spawnA run [''taskkill'', ''/PID'', numToString p] a of
           (Rejected, a1) \<Rightarrow> (Inl (), a1)
         | (Resolved proc, a1) \<Rightarrow>
             if exitCode proc \<noteq> 0 then
               (Inr False,
                logIf (stderr proc \<noteq> [])
                  (''Failed to kill process '' @ numToString p @ '': '' @ stderr proc) a1)
             else
               (case spawnA run
                       [''tasklist'', ''/FI'', ''PID eq '' @ numToString p, ''/FO'', ''CSV'', ''/NH'']
                       (onSys (wait 1000) a1) of
                  (Rejected, a2) \<Rightarrow> (Inl (), a2)
                | (Resolved checkProc, a2) \<Rightarrow>
                    if exitCode checkProc = 0 \<and> trim (stdout checkProc) \<noteq> [] then
                      (case spawnA run [''taskkill'', ''/F'', ''/PID'', numToString p] a2 of
                         (Rejected, a3) \<Rightarrow> (Inl (), a3)
                       | (Resolved forceProc, a3) \<Rightarrow>
                           finishKill p (exitCode forceProc = 0)
                             (logIf (exitCode forceProc \<noteq> 0 \<and> stderr forceProc \<noteq> [])
                                (''Failed to force kill process '' @ numToString p @ '': '' @ stderr forceProc) a3))
                    else finishKill p True a2)))"

text \<open>The \<^verbatim>\<open>catch\<close>: invalidate, log, return false.\<close>

definition killProcess_catch :: "jsnum \<Rightarrow> (unit + bool) \<times> 'w adapter \<Rightarrow> bool \<times> 'w adapter" where
  "killProcess_catch p r =
     (case r of
        (Inl _, a) \<Rightarrow>
          (False, onSys (logError (''Error killing process '' @ numToString p @ '':''))
                    (invalidateProcessCache p a))
      | (Inr b, a) \<Rightarrow> (b, a))"

definition unix_killProcess ::
  "('w \<Rightarrow> string list \<Rightarrow> spawn_outcome \<times> 'w) \<Rightarrow> jsnum \<Rightarrow> bool \<Rightarrow> 'w adapter \<Rightarrow> bool \<times> 'w adapter" where
  "unix_killProcess run p force a = killProcess_catch p (unix_killProcess_try run p force a)"

definition windows_killProcess ::
  "('w \<Rightarrow> string list \<Rightarrow> spawn_outcome \<times> 'w) \<Rightarrow> jsnum \<Rightarrow> bool \<Rightarrow> 'w adapter \<Rightarrow> bool \<times> 'w adapter" where
  "windows_killProcess run p force a = killProcess_catch p (windows_killProcess_try run p force a)"

text \<open>
  \<^verbatim>\<open>getPlatformAdapter()\<close> builds a new adapter, with an empty cache, on every call;
  \<^verbatim>\<open>process.platform\<close> is a parameter.
\<close>

datatype platform = Unix | Windows

definition adapter_killProcess ::
  "platform \<Rightarrow> ('w \<Rightarrow> string list \<Rightarrow> spawn_outcome \<times> 'w) \<Rightarrow> jsnum \<Rightarrow> bool \<Rightarrow> 'w adapter \<Rightarrow> bool \<times> 'w adapter" where
  "adapter_killProcess plat run p force a =
     (case plat of Unix \<Rightarrow> unix_killProcess run p force a
      | Windows \<Rightarrow> windows_killProcess run p force a)"

definition getPlatformAdapter :: "'w sys \<Rightarrow> 'w adapter" where
  "getPlatformAdapter s = \<lparr>sys = s, processInfoCache = Map.empty\<rparr>"

text \<open>\<^verbatim>\<open>killProcess\<close> of \<^verbatim>\<open>utils/process-utils.ts\<close>; the adapter is dropped on return.\<close>

definition killProcess ::
  "platform \<Rightarrow> ('w \<Rightarrow> string list \<Rightarrow> spawn_outcome \<times> 'w) \<Rightarrow> jsnum \<Rightarrow> bool \<Rightarrow> 'w sys \<Rightarrow> bool \<times> 'w sys" where
  "killProcess plat run p force s =
     (case adapter_killProcess plat run p force (getPlatformAdapter s) of (b, a) \<Rightarrow> (b, sys a))"

text \<open>\<^verbatim>\<open>killPort\<close> of \<^verbatim>\<open>actions/port-actions.ts\<close>.\<close>

definition killPort ::
  "platform \<Rightarrow> ('w \<Rightarrow> string list \<Rightarrow> spawn_outcome \<times> 'w) \<Rightarrow> PortInfo \<Rightarrow> bool \<Rightarrow> bool \<Rightarrow> 'w sys \<Rightarrow> bool \<times> 'w sys" where
  "killPort plat run portInfo force confirm s =
     (if confirm \<and> \<not> force then (False, s) else killProcess plat run (pid portInfo) force s)"

subsection \<open>Vocabulary of the termination claims\<close>

text \<open>
  A scripted world, for concrete runs: the tools answer with the listed outcomes, in
  order, whatever the command; when the script is exhausted a spawn rejects.
\<close>

definition run_script :: "spawn_outcome list \<Rightarrow> string list \<Rightarrow> spawn_outcome \<times> spawn_outcome list" where
  "run_script w argv = (case w of [] \<Rightarrow> (Rejected, []) | r # rs \<Rightarrow> (r, rs))"

text \<open>The \<^verbatim>\<open>try\<close> body of the adapter chosen by the platform.\<close>

definition adapter_killProcess_try ::
  "platform \<Rightarrow> ('w \<Rightarrow> string list \<Rightarrow> spawn_outcome \<times> 'w) \<Rightarrow> jsnum \<Rightarrow> bool \<Rightarrow> 'w adapter \<Rightarrow> (unit + bool) \<times> 'w adapter" where
  "adapter_killProcess_try plat run p force a =
     (case plat of Unix \<Rightarrow> unix_killProcess_try run p force a
      | Windows \<Rightarrow> windows_killProcess_try run p force a)"

text \<open>
  The three commands of a termination, as each adapter spells them, and what each adapter
  reads from the liveness check as "still alive".
\<close>

definition gracefulCmd :: "platform \<Rightarrow> jsnum \<Rightarrow> string list" where
  "gracefulCmd plat p =
     (case plat of Unix \<Rightarrow> [''kill'', ''-TERM'', numToString p]
      | Windows \<Rightarrow> [''taskkill'', ''/PID'', numToString p])"

definition livenessCmd :: "platform \<Rightarrow> jsnum \<Rightarrow> string list" where
  "livenessCmd plat p =
     (case plat of Unix \<Rightarrow> [''ps'', ''-p'', numToString p]
      | Windows \<Rightarrow> [''tasklist'', ''/FI'', ''PID eq '' @ numToString p, ''/FO'', ''CSV'', ''/NH''])"

definition forceCmd :: "platform \<Rightarrow> jsnum \<Rightarrow> string list" where
  "forceCmd plat p =
     (case plat of Unix \<Rightarrow> [''kill'', ''-9'', numToString p]
      | Windows \<Rightarrow> [''taskkill'', ''/F'', ''/PID'', numToString p])"






definition exited :: "int \<Rightarrow> string \<Rightarrow> string \<Rightarrow> spawn_outcome" where
  "exited code out err = Resolved \<lparr>stdout = out, stderr = err, exitCode = code\<rparr>"

definition scripted :: "spawn_outcome list \<Rightarrow> cache \<Rightarrow> spawn_outcome list adapter" where
  "scripted script c = \<lparr>sys = \<lparr>world = script, trace = []\<rparr>, processInfoCache = c\<rparr>"

definition someInfo :: ProcessInfo where
  "someInfo = \<lparr>pi_command = ''node server.js'', pi_cwd = Some ''/srv'', pi_lifetime = Some 60\<rparr>"

subsection \<open>Kill by port number\<close>

text \<open>
  \<^verbatim>\<open>killPortByNumber\<close> of \<^verbatim>\<open>actions/port-actions.ts\<close>. The detector
  (\<^verbatim>\<open>port/port-detector.ts\<close>, not among the sources) is a parameter: it returns
  the snapshot or throws (\<^term>\<open>Inl\<close> of the error's message). The messages are the
  template strings of the source.
\<close>

record kill_report =
  success :: bool
  killed :: "PortInfo list"
  message :: string

definition noProcessMessage :: "int \<Rightarrow> string" where
  "noProcessMessage n = ''No process found using port '' @ intToString n"

definition failedMessage :: "int \<Rightarrow> string" where
  "failedMessage n = ''Failed to kill processes on port '' @ intToString n"

definition partialMessage :: "nat \<Rightarrow> int \<Rightarrow> nat \<Rightarrow> string" where
  "partialMessage k n f =
     ''Killed '' @ natToString k @ '' process(es) on port '' @ intToString n @ '', but '' @
     natToString f @ '' failed''"

definition successMessage :: "nat \<Rightarrow> int \<Rightarrow> string" where
  "successMessage k n =
     ''Successfully killed '' @ natToString k @ '' process(es) on port '' @ intToString n"

definition errorMessage :: "int \<Rightarrow> string \<Rightarrow> string" where
  "errorMessage n err = ''Error killing port '' @ intToString n @ '': '' @ err"

text \<open>The \<^verbatim>\<open>for\<close> loop over the matching ports, with its two accumulators.\<close>

fun killLoop ::
  "platform \<Rightarrow> ('w \<Rightarrow> string list \<Rightarrow> spawn_outcome \<times> 'w) \<Rightarrow> bool \<Rightarrow> PortInfo list \<Rightarrow>
   PortInfo list \<times> PortInfo list \<times> 'w sys \<Rightarrow> PortInfo list \<times> PortInfo list \<times> 'w sys" where
  "killLoop plat run force [] acc = acc"
| "killLoop plat run force (portInfo # rest) (kd, fd, s) =
     (case killProcess plat run (pid portInfo) force s of
        (result, s') \<Rightarrow>
          if result then killLoop plat run force rest (kd @ [portInfo], fd, s')
          else killLoop plat run force rest (kd, fd @ [portInfo], s'))"

definition killPortByNumber ::
  "platform \<Rightarrow> ('w \<Rightarrow> string list \<Rightarrow> spawn_outcome \<times> 'w) \<Rightarrow>
   ('w sys \<Rightarrow> (string + PortInfo list) \<times> 'w sys) \<Rightarrow> int \<Rightarrow> bool \<Rightarrow> 'w sys \<Rightarrow> kill_report \<times> 'w sys" where
  "killPortByNumber plat run detectPorts n force s =
     (case detectPorts s of
        (Inl err, s1) \<Rightarrow> (\<lparr>success = False, killed = [], message = errorMessage n err\<rparr>, s1)
      | (Inr found, s1) \<Rightarrow>
          let matchingPorts = filter (\<lambda>q. port q = n) found in
          if length matchingPorts = 0 then
            (\<lparr>success = False, killed = [], message = noProcessMessage n\<rparr>, s1)
          else
            (case killLoop plat run force matchingPorts ([], [], s1) of
               (kd, fd, s2) \<Rightarrow>
                 if length kd = 0 then
                   (\<lparr>success = False, killed = [], message = failedMessage n\<rparr>, s2)
                 else if length fd > 0 then
                   (\<lparr>success = True, killed = kd,
                     message = partialMessage (length kd) n (length fd)\<rparr>, s2)
                 else
                   (\<lparr>success = True, killed = kd, message = successMessage (length kd) n\<rparr>, s2)))"

text \<open>The command a \<^verbatim>\<open>killProcess\<close> call issues first.\<close>

definition firstCmd :: "platform \<Rightarrow> jsnum \<Rightarrow> bool \<Rightarrow> string list" where
  "firstCmd plat p force = (if force then forceCmd plat p else gracefulCmd plat p)"

text \<open>Sample data for concrete runs.\<close>

definition listener :: "int \<Rightarrow> int \<Rightarrow> PortInfo" where
  "listener n p = \<lparr>port = n, protocol = TCP, pid = Some p, processName = ''node'', command = [],
     cwd = None, user = ''dev'', lifetime = None, ptype = None\<rparr>"

definition detected :: "PortInfo list \<Rightarrow> 'w sys \<Rightarrow> (string + PortInfo list) \<times> 'w sys" where
  "detected ports s = (Inr ports, s)"

section \<open>The dashboard\<close>

text \<open>
  \<^verbatim>\<open>PortGroup\<close>: a named bucket of ports (fields \<^verbatim>\<open>id\<close>, \<^verbatim>\<open>type\<close>,
  \<^verbatim>\<open>ports\<close>, \<^verbatim>\<open>collapsed\<close>).
\<close>

record PortGroup =
  g_id :: string
  g_type :: string
  g_ports :: "PortInfo list"
  collapsed :: bool

datatype sort_key = ByPort | ByProcess | ByPid | ByUser

definition sortKeyName :: "sort_key \<Rightarrow> string" where
  "sortKeyName k = (case k of ByPort \<Rightarrow> ''port'' | ByProcess \<Rightarrow> ''process'' | ByPid \<Rightarrow> ''pid'' | ByUser \<Rightarrow> ''user'')"

type_synonym flat_port = "PortInfo \<times> PortGroup"

record fp_cache =
  fc_result :: "flat_port list"
  fc_filter :: string
  fc_groupsHash :: string
  fc_sortBy :: sort_key

record render_state =
  rs_filteredPorts :: "flat_port list"
  rs_selectedIndex :: int
  rs_filter :: string
  rs_sortBy :: sort_key
  rs_showDetails :: bool

record toast =
  t_message :: string
  t_emoji :: "string option"
  t_color :: "string option"

text \<open>
  The \<^verbatim>\<open>Dashboard\<close> object: the fields of its \<^verbatim>\<open>DashboardState\<close> that some
  handler reads or writes, and its private members \<^verbatim>\<open>isRunning\<close>,
  \<^verbatim>\<open>searchBuffer\<close>, \<^verbatim>\<open>filteredPortsCache\<close> and \<^verbatim>\<open>previousRenderState\<close>.
  \<^verbatim>\<open>confirmAction\<close> is a closure or null: it is kept as an opaque handle.
\<close>

record Dashboard =
  ports :: "PortInfo list"
  groups :: "PortGroup list"
  selectedIndex :: int
  filter_s :: string
  showHelp :: bool
  showConfirm :: bool
  confirmAction :: "nat option"
  showLogs :: bool
  logsContent :: "string option"
  showCommand :: bool
  commandContent :: "string option"
  lastUpdate :: nat
  sortBy :: sort_key
  showDetails :: bool
  searching :: bool
  isKilling :: bool
  killingPort :: "int option"
  killMessage :: "toast option"
  killMessageExpiresAt :: "nat option"
  showStats :: bool
  statsContent :: "string option"
  currentRank :: "string option"
  isRunning :: bool
  searchBuffer :: string
  filteredPortsCache :: "fp_cache option"
  previousRenderState :: "render_state option"

text \<open>The state the constructor builds.\<close>

definition initialDashboard :: Dashboard where
  "initialDashboard =
     \<lparr>ports = [], groups = [], selectedIndex = 0, filter_s = [], showHelp = False,
      showConfirm = False, confirmAction = None, showLogs = False, logsContent = None,
      showCommand = False, commandContent = None, lastUpdate = 0, sortBy = ByPort,
      showDetails = True, searching = False, isKilling = False, killingPort = None,
      killMessage = None, killMessageExpiresAt = None, showStats = False, statsContent = None,
      currentRank = None, isRunning = False, searchBuffer = [], filteredPortsCache = None,
      previousRenderState = None\<rparr>"

subsection \<open>The filtered, flattened port list\<close>

text \<open>\<^verbatim>\<open>toLowerCase\<close> on ASCII letters, \<^verbatim>\<open>Array.prototype.join\<close>.\<close>

definition toLowerChar :: "char \<Rightarrow> char" where
  "toLowerChar c =
     (if 65 \<le> (of_char c :: nat) \<and> (of_char c :: nat) \<le> 90 then char_of ((of_char c :: nat) + 32) else c)"

definition toLowerCase :: "string \<Rightarrow> string" where
  "toLowerCase s = map toLowerChar s"

fun join :: "string \<Rightarrow> string list \<Rightarrow> string" where
  "join sep [] = []"
| "join sep [x] = x"
| "join sep (x # y # ys) = x @ sep @ join sep (y # ys)"

text \<open>
  \<^verbatim>\<open>getFilteredPorts\<close> is memoized on the filter text, a hash of the groups
  (id, collapsed flag and size of each) and the sort key.
\<close>

definition groupsHash :: "PortGroup list \<Rightarrow> string" where
  "groupsHash gs =
     join ''|'' (map (\<lambda>g. g_id g @ '':'' @ (if collapsed g then ''1'' else ''0'') @ '':'' @
                          natToString (length (g_ports g))) gs)"

definition matchesFilter :: "string \<Rightarrow> PortInfo \<Rightarrow> bool" where
  "matchesFilter f q =
     (if f \<noteq> [] then
        includes_str (intToString (port q)) f \<or>
        includes_str (toLowerCase (processName q)) (toLowerCase f) \<or>
        includes_str (toLowerCase (command q)) (toLowerCase f)
      else True)"

definition flatten :: "string \<Rightarrow> PortGroup list \<Rightarrow> flat_port list" where
  "flatten f gs =
     concat (map (\<lambda>g. if collapsed g then []
                        else map (\<lambda>q. (q, g)) (filter (matchesFilter f) (g_ports g))) gs)"

definition getFilteredPorts :: "Dashboard \<Rightarrow> flat_port list \<times> Dashboard" where
  "getFilteredPorts d =
     (let h = groupsHash (groups d);
          hit = (case filteredPortsCache d of
                   None \<Rightarrow> False
                 | Some c \<Rightarrow> fc_filter c = filter_s d \<and> fc_groupsHash c = h \<and> fc_sortBy c = sortBy d)
      in if hit then (case filteredPortsCache d of Some c \<Rightarrow> (fc_result c, d) | None \<Rightarrow> ([], d))
         else
           (let flat = flatten (filter_s d) (groups d)
            in (flat, d\<lparr>filteredPortsCache :=
                  Some \<lparr>fc_result = flat, fc_filter = filter_s d, fc_groupsHash = h,
                        fc_sortBy = sortBy d\<rparr>\<rparr>)))"

text \<open>
  \<^verbatim>\<open>getSelectedPort\<close>: the entry at \<open>min(selectedIndex, length - 1)\<close>; an index
  below zero reads \<^verbatim>\<open>undefined\<close>, which \<^verbatim>\<open>|| null\<close> turns into null.
\<close>

definition selectedOf :: "flat_port list \<Rightarrow> int \<Rightarrow> flat_port option" where
  "selectedOf flatPorts sel =
     (if length flatPorts = 0 then None
      else (let i = min sel (int (length flatPorts) - 1)
            in if i < 0 then None else Some (flatPorts ! nat i)))"

definition getSelectedPort :: "Dashboard \<Rightarrow> flat_port option \<times> Dashboard" where
  "getSelectedPort d =
     (case getFilteredPorts d of (flatPorts, d') \<Rightarrow> (selectedOf flatPorts (selectedIndex d'), d'))"

definition moveSelection :: "int \<Rightarrow> Dashboard \<Rightarrow> Dashboard" where
  "moveSelection direction d =
     (case getFilteredPorts d of
        (flatPorts, d') \<Rightarrow>
          if length flatPorts = 0 then d'
          else
            (let i = selectedIndex d' + direction
             in d'\<lparr>selectedIndex :=
                    (if i < 0 then int (length flatPorts) - 1
                     else if i \<ge> int (length flatPorts) then 0 else i)\<rparr>))"

subsection \<open>Rendering\<close>

text \<open>
  A frame is the sequence of paint operations written to the renderer's buffer:
  \<^verbatim>\<open>renderHeader\<close>, \<^verbatim>\<open>renderPortLine(entry, index, y)\<close>,
  \<^verbatim>\<open>renderDetails\<close>, the footer of \<^verbatim>\<open>renderMain\<close>, \<^verbatim>\<open>renderKillMessage\<close>
  and the modal screens. The clock (\<^verbatim>\<open>Date.now()\<close>) and the terminal height are
  parameters. Within one frame the later calls of \<^verbatim>\<open>getFilteredPorts\<close> hit the memo
  the first call wrote, so the list is computed once.
\<close>

datatype modal = HelpModal | ConfirmModal | LogsModal | CommandModal | StatsModal

datatype paint = Clear | HideCursor | Header | PortLine int int | Details | Footer | Toast
  | Modal modal | Flush

definition modalOpen :: "Dashboard \<Rightarrow> bool" where
  "modalOpen d = (showHelp d \<or> showConfirm d \<or> showLogs d \<or> showCommand d \<or> showStats d)"

definition maxHeightOf :: "int \<Rightarrow> Dashboard \<Rightarrow> int" where
  "maxHeightOf height d = height - (if showDetails d then 6 else 4)"

definition rowChanged :: "flat_port \<Rightarrow> flat_port \<Rightarrow> bool" where
  "rowChanged pr cu =
     (\<not> strict_eq (pid (fst pr)) (pid (fst cu)) \<or>
      port (fst pr) \<noteq> port (fst cu) \<or>
      processName (fst pr) \<noteq> processName (fst cu) \<or>
      command (fst pr) \<noteq> command (fst cu) \<or>
      lifetime (fst pr) \<noteq> lifetime (fst cu) \<or>
      ptype (fst pr) \<noteq> ptype (fst cu))"

definition renderMain :: "int \<Rightarrow> flat_port list \<Rightarrow> Dashboard \<Rightarrow> paint list" where
  "renderMain height flatPorts d =
     [Header] @
     map (\<lambda>i. PortLine (int i) (2 + int i))
       (takeWhile (\<lambda>i. 2 + int i < maxHeightOf height d) [0..<length flatPorts]) @
     (if selectedOf flatPorts (selectedIndex d) \<noteq> None \<and> showDetails d then [Details] else []) @
     [Footer] @
     (if killMessage d \<noteq> None then [Toast] else [])"

definition fullPaint :: "int \<Rightarrow> flat_port list \<Rightarrow> Dashboard \<Rightarrow> paint list" where
  "fullPaint height flatPorts d = [Clear, HideCursor] @ renderMain height flatPorts d @ [Flush]"

text \<open>
  \<^verbatim>\<open>changedLines\<close> is a \<^verbatim>\<open>Set\<close>, iterated in insertion order. The row loop
  runs while \<open>i < minLength\<close> and \<open>i + 2 < maxHeight\<close>. The test
  \<^verbatim>\<open>changedLines.size > maxHeight / 2\<close> is \<open>2 * size > maxHeight\<close> on integers.
\<close>

definition addLine :: "int \<Rightarrow> int list \<Rightarrow> int list" where
  "addLine x xs = (if x \<in> set xs then xs else xs @ [x])"

definition changedLines :: "int \<Rightarrow> render_state \<Rightarrow> render_state \<Rightarrow> Dashboard \<Rightarrow> int list" where
  "changedLines height previous current d =
     foldl (\<lambda>acc i. if rowChanged (rs_filteredPorts previous ! i) (rs_filteredPorts current ! i)
                      then addLine (int i + 2) acc else acc)
       (if rs_selectedIndex previous \<noteq> rs_selectedIndex current
        then addLine (rs_selectedIndex current + 2) (addLine (rs_selectedIndex previous + 2) [])
        else [])
       (takeWhile (\<lambda>i. int i + 2 < maxHeightOf height d)
          [0..<min (length (rs_filteredPorts previous)) (length (rs_filteredPorts current))])"

definition deltaPaint :: "int \<Rightarrow> int list \<Rightarrow> flat_port list \<Rightarrow> Dashboard \<Rightarrow> paint list" where
  "deltaPaint height lines flatPorts d =
     [HideCursor, Header] @
     map (\<lambda>l. PortLine (l - 2) l)
       (filter (\<lambda>l. l \<ge> 2 \<and> l < maxHeightOf height d \<and> l - 2 < int (length flatPorts)) lines) @
     (if showDetails d then (if selectedOf flatPorts (selectedIndex d) \<noteq> None then [Details] else [])
      else []) @
     (if killMessage d \<noteq> None then [Toast] else []) @
     [Flush]"

definition renderDelta :: "int \<Rightarrow> render_state \<Rightarrow> render_state \<Rightarrow> Dashboard \<Rightarrow> paint list" where
  "renderDelta height previous current d =
     (if 2 * int (length (changedLines height previous current d)) > maxHeightOf height d
      then fullPaint height (rs_filteredPorts current) d
      else deltaPaint height (changedLines height previous current d) (rs_filteredPorts current) d)"

definition expireKillMessage :: "nat \<Rightarrow> Dashboard \<Rightarrow> Dashboard" where
  "expireKillMessage now d =
     (case killMessage d of
        None \<Rightarrow> d
      | Some m \<Rightarrow>
          (case killMessageExpiresAt d of
             None \<Rightarrow> d
           | Some t \<Rightarrow>
               if t \<noteq> 0 \<and> now > t then d\<lparr>killMessage := None, killMessageExpiresAt := None\<rparr>
               else d))"

definition canUseDelta :: "render_state option \<Rightarrow> render_state \<Rightarrow> Dashboard \<Rightarrow> bool" where
  "canUseDelta previous current d =
     (killMessage d = None \<and>
      (case previous of
         None \<Rightarrow> False
       | Some p \<Rightarrow>
           length (rs_filteredPorts p) = length (rs_filteredPorts current) \<and>
           rs_filter p = rs_filter current \<and>
           rs_sortBy p = rs_sortBy current \<and>
           rs_showDetails p = rs_showDetails current))"

definition currentStateOf :: "flat_port list \<Rightarrow> Dashboard \<Rightarrow> render_state" where
  "currentStateOf filteredPorts d =
     \<lparr>rs_filteredPorts = filteredPorts, rs_selectedIndex = selectedIndex d, rs_filter = filter_s d,
      rs_sortBy = sortBy d, rs_showDetails = showDetails d\<rparr>"

definition render :: "nat \<Rightarrow> int \<Rightarrow> Dashboard \<Rightarrow> paint list \<times> Dashboard" where
  "render now height d =
     (if showHelp d \<or> showConfirm d \<or> showLogs d \<or> showCommand d \<or> showStats d then
        ([Clear, HideCursor,
          Modal (if showHelp d then HelpModal else if showConfirm d then ConfirmModal
                 else if showLogs d then LogsModal else if showCommand d then CommandModal
                 else StatsModal),
          Flush],
         d\<lparr>previousRenderState := None\<rparr>)
      else
        (case getFilteredPorts d of
           (filteredPorts, d1) \<Rightarrow>
             (let currentState = currentStateOf filteredPorts d1;
                  d2 = expireKillMessage now d1
              in ((if canUseDelta (previousRenderState d2) currentState d2 then
                     (case previousRenderState d2 of
                        Some p \<Rightarrow> renderDelta height p currentState d2
                      | None \<Rightarrow> fullPaint height filteredPorts d2)
                   else fullPaint height filteredPorts d2),
                  d2\<lparr>previousRenderState := Some currentState\<rparr>))))"

text \<open>The terminal lines a paint operation writes on a screen of the given height.\<close>

definition linesOf :: "int \<Rightarrow> paint \<Rightarrow> int list" where
  "linesOf height op =
     (case op of
        Header \<Rightarrow> [0]
      | PortLine i y \<Rightarrow> [y]
      | Details \<Rightarrow> [height - 4, height - 3]
      | Footer \<Rightarrow> [height - 2, height - 1]
      | Toast \<Rightarrow> [height - 3]
      | _ \<Rightarrow> [])"

definition paintedLines :: "int \<Rightarrow> paint list \<Rightarrow> int list" where
  "paintedLines height ops = concat (map (linesOf height) ops)"

text \<open>Sample dashboards for concrete frames.\<close>

definition sampleGroup :: PortGroup where
  "sampleGroup = \<lparr>g_id = ''dev-server'', g_type = ''dev-server'',
     g_ports = [listener 3000 10, listener 5173 11, listener 8080 12], collapsed = False\<rparr>"

definition sampleDashboard :: Dashboard where
  "sampleDashboard = initialDashboard\<lparr>groups := [sampleGroup]\<rparr>"

definition firstFrame :: "int \<Rightarrow> Dashboard" where
  "firstFrame height = snd (render 0 height sampleDashboard)"

definition movedDashboard :: "int \<Rightarrow> Dashboard" where
  "movedDashboard height = moveSelection 1 (firstFrame height)"

definition sampleFlat :: "flat_port list" where
  "sampleFlat = map (\<lambda>q. (q, sampleGroup)) (g_ports sampleGroup)"

definition samplePrevious :: render_state where
  "samplePrevious = \<lparr>rs_filteredPorts = sampleFlat, rs_selectedIndex = 0, rs_filter = [],
     rs_sortBy = ByPort, rs_showDetails = True\<rparr>"

definition resortedDashboard :: Dashboard where
  "resortedDashboard = (movedDashboard 24)\<lparr>sortBy := ByPid, filteredPortsCache := None\<rparr>"

subsection \<open>The environment of a handler\<close>

text \<open>
  The points of \<^verbatim>\<open>handleKill\<close> at which a call may throw or a promise reject.
\<close>

datatype step = FirstRender | KillPort | Gamification | ToastRender | ClearCaches | Refresh
  | RefreshRender | CatchClear | CatchRefresh | CatchRender | FinalRender

text \<open>
  What a handler obtains from outside the dashboard: the clock and the terminal height;
  the outcome of a discovery cycle (detector, processor and command-line filters: the
  ports, the groups and the timestamp, or a failure); the command-line sort option;
  \<^verbatim>\<open>Array.prototype.sort\<close> with the comparator of a sort key (\<^verbatim>\<open>localeCompare\<close>
  depends on the locale); the texts fetched for the stats, command and logs modals; what
  a confirmed action does; and, for a kill, which steps throw, whether the process was
  killed, and the toasts and rank the gamification modules produce.
\<close>

record env =
  e_now :: nat
  e_height :: int
  e_refreshed :: "(PortInfo list \<times> PortGroup list \<times> nat) option"
  e_cliSort :: "sort_key option"
  e_sort :: "sort_key \<Rightarrow> PortInfo list \<Rightarrow> PortInfo list"
  e_statsText :: string
  e_fetchedCommand :: "string option"
  e_fetchedLogs :: "string option"
  e_runAction :: "nat \<Rightarrow> Dashboard \<Rightarrow> Dashboard"
  e_throws :: "step \<Rightarrow> bool"
  e_killed :: bool
  e_killMsg :: toast
  e_failMsg :: toast
  e_rank :: string
  e_rankUp :: "toast option"

definition doRender :: "env \<Rightarrow> Dashboard \<Rightarrow> Dashboard" where
  "doRender e d = snd (render (e_now e) (e_height e) d)"

definition sortGroups :: "env \<Rightarrow> sort_key \<Rightarrow> PortGroup list \<Rightarrow> PortGroup list" where
  "sortGroups e k gs = map (\<lambda>g. g\<lparr>g_ports := e_sort e k (g_ports g)\<rparr>) gs"

definition applySorting :: "env \<Rightarrow> Dashboard \<Rightarrow> Dashboard" where
  "applySorting e d = d\<lparr>groups := sortGroups e (sortBy d) (groups d), filteredPortsCache := None\<rparr>"

fun toggleFirst :: "string \<Rightarrow> PortGroup list \<Rightarrow> PortGroup list" where
  "toggleFirst gid [] = []"
| "toggleFirst gid (g # gs) =
     (if g_id g = gid then g\<lparr>collapsed := \<not> collapsed g\<rparr> # gs else g # toggleFirst gid gs)"

definition toggleGroup :: "Dashboard \<Rightarrow> Dashboard" where
  "toggleGroup d =
     (case getSelectedPort d of
        (None, d') \<Rightarrow> d'
      | (Some sel, d') \<Rightarrow> d'\<lparr>groups := toggleFirst (g_id (snd sel)) (groups d')\<rparr>)"

text \<open>
  \<^verbatim>\<open>refresh\<close> catches its own errors: a failed cycle leaves the state as it was.
\<close>

definition refresh :: "env \<Rightarrow> Dashboard \<Rightarrow> Dashboard" where
  "refresh e d =
     (case e_refreshed e of
        None \<Rightarrow> d
      | Some (ps, gs, ts) \<Rightarrow>
          (let d1 = d\<lparr>ports := ps, groups := gs, lastUpdate := ts\<rparr>;
               d2 = (case e_cliSort e of
                       Some k \<Rightarrow> d1\<lparr>groups := sortGroups e k (groups d1)\<rparr>
                     | None \<Rightarrow> applySorting e d1)
           in (case getFilteredPorts d2 of
                 (flatPorts, d3) \<Rightarrow>
                   (if selectedIndex d3 \<ge> int (length flatPorts)
                    then d3\<lparr>selectedIndex := max 0 (int (length flatPorts) - 1)\<rparr>
                    else d3)\<lparr>filteredPortsCache := None\<rparr>)))"

text \<open>The refresh timer's callback.\<close>

definition tick :: "env \<Rightarrow> Dashboard \<Rightarrow> Dashboard" where
  "tick e d = (if isRunning d then doRender e (refresh e d) else d)"

subsection \<open>The kill action\<close>

text \<open>
  A step that throws does so before it changes the state. The result of the handler is
  whether its promise rejects, and the state it leaves.
\<close>

definition renderStep :: "env \<Rightarrow> step \<Rightarrow> Dashboard \<Rightarrow> bool \<times> Dashboard" where
  "renderStep e st d = (if e_throws e st then (True, d) else (False, doRender e d))"

definition refreshStep :: "env \<Rightarrow> step \<Rightarrow> Dashboard \<Rightarrow> bool \<times> Dashboard" where
  "refreshStep e st d = (if e_throws e st then (True, d) else (False, refresh e d))"

text \<open>
  \<^verbatim>\<open>clearFilteredPortsCache\<close> is an assignment; \<^verbatim>\<open>clearDetectorCache\<close> calls
  the detector, which keeps its own snapshot outside the dashboard state.
\<close>

definition clearStep :: "env \<Rightarrow> step \<Rightarrow> Dashboard \<Rightarrow> bool \<times> Dashboard" where
  "clearStep e st d = (e_throws e st, d\<lparr>filteredPortsCache := None\<rparr>)"

definition andThen ::
  "(Dashboard \<Rightarrow> bool \<times> Dashboard) \<Rightarrow> (Dashboard \<Rightarrow> bool \<times> Dashboard) \<Rightarrow> Dashboard \<Rightarrow> bool \<times> Dashboard" where
  "andThen f g d = (case f d of (True, d') \<Rightarrow> (True, d') | (False, d') \<Rightarrow> g d')"

definition toastStep :: "env \<Rightarrow> Dashboard \<Rightarrow> bool \<times> Dashboard" where
  "toastStep e d =
     (if e_throws e KillPort then (True, d)
      else if e_throws e Gamification then (True, d)
      else if e_killed e then
        (False,
         (case e_rankUp e of
            None \<Rightarrow> d\<lparr>killMessage := Some (e_killMsg e),
                       killMessageExpiresAt := Some (e_now e + 3000),
                       currentRank := Some (e_rank e)\<rparr>
          | Some up \<Rightarrow> d\<lparr>killMessage := Some up,
                          killMessageExpiresAt := Some (e_now e + 5000),
                          currentRank := Some (e_rank e)\<rparr>))
      else
        (False, d\<lparr>killMessage := Some (e_failMsg e),
                   killMessageExpiresAt := Some (e_now e + 3000)\<rparr>))"

definition handleKill_try :: "env \<Rightarrow> Dashboard \<Rightarrow> bool \<times> Dashboard" where
  "handleKill_try e =
     andThen (toastStep e)
       (andThen (renderStep e ToastRender)
          (andThen (clearStep e ClearCaches)
             (andThen (refreshStep e Refresh) (renderStep e RefreshRender))))"

definition handleKill_catch :: "env \<Rightarrow> Dashboard \<Rightarrow> bool \<times> Dashboard" where
  "handleKill_catch e =
     andThen (clearStep e CatchClear)
       (andThen (refreshStep e CatchRefresh) (renderStep e CatchRender))"

definition handleKill :: "env \<Rightarrow> Dashboard \<Rightarrow> bool \<times> Dashboard" where
  "handleKill e d =
     (case getSelectedPort d of
        (None, d0) \<Rightarrow> (False, d0)
      | (Some selected, d0) \<Rightarrow>
          (case renderStep e FirstRender
                  (d0\<lparr>isKilling := True, killingPort := Some (port (fst selected))\<rparr>) of
             (True, d1) \<Rightarrow> (True, d1)
           | (False, d1) \<Rightarrow>
               (case handleKill_try e d1 of
                  (threw, d2) \<Rightarrow>
                    (case (if threw then handleKill_catch e d2 else (False, d2)) of
                       (rethrown, d3) \<Rightarrow>
                         (case renderStep e FinalRender
                                 (d3\<lparr>isKilling := False, killingPort := None\<rparr>) of
                            (t, d4) \<Rightarrow> (rethrown \<or> t, d4))))))"

subsection \<open>The keyboard handlers\<close>

definition isModalOpen :: "Dashboard \<Rightarrow> bool" where
  "isModalOpen d =
     (showHelp d \<or> showConfirm d \<or> showLogs d \<or> showCommand d \<or> showStats d \<or> searching d)"

definition getFullCommand :: "PortInfo \<Rightarrow> string" where
  "getFullCommand q =
     (if command q \<noteq> [] then command q else ''Unknown command for PID '' @ numToString (pid q))"

definition orElse :: "string option \<Rightarrow> string \<Rightarrow> string" where
  "orElse v dflt = (case v of None \<Rightarrow> dflt | Some t \<Rightarrow> if t \<noteq> [] then t else dflt)"

definition handleCopy :: "Dashboard \<Rightarrow> Dashboard" where
  "handleCopy d = snd (getSelectedPort d)"

definition handleViewCommand :: "env \<Rightarrow> Dashboard \<Rightarrow> Dashboard" where
  "handleViewCommand e d =
     (case getSelectedPort d of
        (None, d') \<Rightarrow> d'
      | (Some selected, d') \<Rightarrow>
          doRender e (d'\<lparr>showCommand := True,
                         commandContent :=
                           Some (orElse (e_fetchedCommand e) (getFullCommand (fst selected)))\<rparr>))"

definition handleViewLogs :: "env \<Rightarrow> Dashboard \<Rightarrow> Dashboard" where
  "handleViewLogs e d =
     (case getSelectedPort d of
        (None, d') \<Rightarrow> d'
      | (Some selected, d') \<Rightarrow>
          doRender e (d'\<lparr>showLogs := True,
                         logsContent := Some (orElse (e_fetchedLogs e) ''No logs available'')\<rparr>))"

definition setSort :: "env \<Rightarrow> sort_key \<Rightarrow> Dashboard \<Rightarrow> Dashboard" where
  "setSort e k d = (if isModalOpen d then d else doRender e (applySorting e (d\<lparr>sortBy := k\<rparr>)))"

definition onStats :: "env \<Rightarrow> Dashboard \<Rightarrow> Dashboard" where
  "onStats e d =
     (if isModalOpen d \<and> \<not> showStats d then d
      else if showStats d then doRender e (d\<lparr>showStats := False, statsContent := None\<rparr>)
      else doRender e (d\<lparr>showStats := True, statsContent := Some (e_statsText e)\<rparr>))"

definition onEscape :: "env \<Rightarrow> Dashboard \<Rightarrow> Dashboard" where
  "onEscape e d =
     (if searching d then doRender e (d\<lparr>searching := False, filter_s := [], filteredPortsCache := None\<rparr>)
      else if showHelp d then doRender e (d\<lparr>showHelp := False\<rparr>)
      else if showConfirm d then doRender e (d\<lparr>showConfirm := False, confirmAction := None\<rparr>)
      else if showLogs d then doRender e (d\<lparr>showLogs := False, logsContent := None\<rparr>)
      else if showCommand d then doRender e (d\<lparr>showCommand := False, commandContent := None\<rparr>)
      else if showStats d then doRender e (d\<lparr>showStats := False, statsContent := None\<rparr>)
      else d)"

definition onEnter :: "env \<Rightarrow> Dashboard \<Rightarrow> Dashboard" where
  "onEnter e d =
     (if searching d then doRender e (d\<lparr>searching := False, filteredPortsCache := None\<rparr>)
      else if showConfirm d \<and> confirmAction d \<noteq> None then
        (case confirmAction d of
           Some act \<Rightarrow> doRender e (e_runAction e act (d\<lparr>showConfirm := False\<rparr>))
         | None \<Rightarrow> d)
      else d)"

text \<open>The handler registered for the key, if there is one.\<close>

definition keyHandler :: "env \<Rightarrow> string \<Rightarrow> Dashboard \<Rightarrow> Dashboard" where
  "keyHandler e key d =
     (if key = ''q'' then d\<lparr>isRunning := False\<rparr>
      else if key = ''up'' then (if isModalOpen d then d else doRender e (moveSelection (- 1) d))
      else if key = ''down'' then (if isModalOpen d then d else doRender e (moveSelection 1 d))
      else if key = ''/'' then (if isModalOpen d then d else doRender e (d\<lparr>searching := True\<rparr>))
      else if key = ''k'' then (if isModalOpen d then d else snd (handleKill e d))
      else if key = ''c'' then (if isModalOpen d then d else handleCopy d)
      else if key = ''v'' then (if isModalOpen d then d else handleViewCommand e d)
      else if key = ''l'' then (if isModalOpen d then d else handleViewLogs e d)
      else if key = ''g'' then
        (if isModalOpen d then d else doRender e ((toggleGroup d)\<lparr>filteredPortsCache := None\<rparr>))
      else if key = ''d'' then
        (if isModalOpen d then d else doRender e (d\<lparr>showDetails := \<not> showDetails d\<rparr>))
      else if key = ''1'' then setSort e ByPort d
      else if key = ''2'' then setSort e ByProcess d
      else if key = ''3'' then setSort e ByPid d
      else if key = ''?'' then doRender e (d\<lparr>showHelp := \<not> showHelp d\<rparr>)
      else if key = ''s'' then onStats e d
      else if key = ''escape'' then onEscape e d
      else if key = ''enter'' then onEnter e d
      else d)"

text \<open>The wildcard handler \<^verbatim>\<open>"*"\<close> of \<^verbatim>\<open>setupKeyboard\<close>, run after the key's own.\<close>

definition wildcardHandler :: "env \<Rightarrow> string \<Rightarrow> Dashboard \<Rightarrow> Dashboard" where
  "wildcardHandler e key d =
     (if searching d \<and> length key = 1 \<and> list_all isDigit key then
        doRender e (d\<lparr>searchBuffer := searchBuffer d @ key, filter_s := searchBuffer d @ key,
                       filteredPortsCache := None\<rparr>)
      else if searching d \<and> key = ''backspace'' then
        doRender e (d\<lparr>searchBuffer := butlast (searchBuffer d), filter_s := butlast (searchBuffer d),
                       filteredPortsCache := None\<rparr>)
      else d)"

definition handleKey :: "env \<Rightarrow> string \<Rightarrow> Dashboard \<Rightarrow> Dashboard" where
  "handleKey e key d = wildcardHandler e key (keyHandler e key d)"

text \<open>
  \<^verbatim>\<open>start\<close>: the dashboard runs, the rank is loaded and the first discovery cycle
  is awaited.
\<close>

definition start :: "env \<Rightarrow> Dashboard \<Rightarrow> Dashboard" where
  "start e d = refresh e (d\<lparr>isRunning := True, currentRank := Some (e_rank e)\<rparr>)"

text \<open>
  A run of the dashboard: keyboard events and timer ticks, each with its environment.
  \<^verbatim>\<open>ctrl+c\<close> exits the process before any handler runs, and the handler of
  \<^verbatim>\<open>q\<close> stops the dashboard and exits: the run ends there.
\<close>

datatype input = Key string | Tick

fun runInputs :: "(env \<times> input) list \<Rightarrow> Dashboard \<Rightarrow> Dashboard" where
  "runInputs [] d = d"
| "runInputs ((e, Key k) # rest) d =
     (if k = ''ctrl+c'' then d
      else if k = ''q'' then handleKey e k d
      else runInputs rest (handleKey e k d))"
| "runInputs ((e, Tick) # rest) d = runInputs rest (tick e d)"

text \<open>
  A sample environment: the kill invocation throws, and so does the refresh of the
  \<^verbatim>\<open>catch\<close> block.
\<close>

definition sampleEnv :: env where
  "sampleEnv =
     \<lparr>e_now = 1000, e_height = 24, e_refreshed = None, e_cliSort = None, e_sort = (\<lambda>k qs. qs),
      e_statsText = ''Total Kills: 0'', e_fetchedCommand = Some ''node server.js'',
      e_fetchedLogs = None, e_runAction = (\<lambda>n d. d),
      e_throws = (\<lambda>st. st = KillPort \<or> st = CatchRefresh),
      e_killed = False,
      e_killMsg = \<lparr>t_message = ''Port 3000 is free'', t_emoji = None, t_color = Some ''green''\<rparr>,
      e_failMsg = \<lparr>t_message = ''Could not kill port 3000'', t_emoji = None, t_color = Some ''red''\<rparr>,
      e_rank = ''Novice'', e_rankUp = None\<rparr>"

section \<open>Process metadata from ps\<close>

text \<open>
  The three etime patterns are sequences of \<^verbatim>\<open>\d{1,2}\<close>, \<^verbatim>\<open>\d{2}\<close> and literal
  characters, each pattern ending in \<^verbatim>\<open>$\<close>. \<^verbatim>\<open>s.match(p)\<close> tries the start
  positions from the left; at a start position the pattern has to consume the rest of the
  string. The capture group is the whole match.
\<close>

datatype atom = D12 | D2 | Lit char

fun fullMatch :: "atom list \<Rightarrow> string \<Rightarrow> bool" where
  "fullMatch [] s = (s = [])"
| "fullMatch (Lit c # as) s = (case s of [] \<Rightarrow> False | x # xs \<Rightarrow> x = c \<and> fullMatch as xs)"
| "fullMatch (D2 # as) s =
     (case s of x # y # xs \<Rightarrow> isDigit x \<and> isDigit y \<and> fullMatch as xs | _ \<Rightarrow> False)"
| "fullMatch (D12 # as) s =
     (case s of
        [] \<Rightarrow> False
      | x # xs \<Rightarrow>
          isDigit x \<and>
          ((case xs of [] \<Rightarrow> False | y # ys \<Rightarrow> isDigit y \<and> fullMatch as ys) \<or> fullMatch as xs))"

fun searchEnd :: "atom list \<Rightarrow> string \<Rightarrow> string option" where
  "searchEnd p [] = (if fullMatch p [] then Some [] else None)"
| "searchEnd p (x # xs) = (if fullMatch p (x # xs) then Some (x # xs) else searchEnd p xs)"

definition pDays :: "atom list" where
  "pDays = [D12, Lit CHR ''-'', D12, Lit CHR '':'', D2, Lit CHR '':'', D2]"

definition pHours :: "atom list" where
  "pHours = [D12, Lit CHR '':'', D2, Lit CHR '':'', D2]"

definition pMinutes :: "atom list" where
  "pMinutes = [D12, Lit CHR '':'', D2]"

definition etimePatterns :: "atom list list" where
  "etimePatterns = [pDays, pHours, pMinutes]"

text \<open>The loop over the patterns: the first that matches wins.\<close>

fun firstMatch :: "atom list list \<Rightarrow> string \<Rightarrow> string option" where
  "firstMatch [] s = None"
| "firstMatch (p # ps) s = (case searchEnd p s of Some e \<Rightarrow> Some e | None \<Rightarrow> firstMatch ps s)"

text \<open>\<^verbatim>\<open>s.split(/[:-]/)\<close>.\<close>

fun split_by :: "(char \<Rightarrow> bool) \<Rightarrow> string \<Rightarrow> string list" where
  "split_by P [] = [[]]"
| "split_by P (x # xs) =
     (if P x then [] # split_by P xs
      else (case split_by P xs of [] \<Rightarrow> [[x]] | w # ws \<Rightarrow> (x # w) # ws))"

text \<open>\<^verbatim>\<open>parseInt(x, 10) || 0\<close>.\<close>

definition parseIntOr0 :: "string \<Rightarrow> int" where
  "parseIntOr0 x = (case parseInt x of None \<Rightarrow> 0 | Some v \<Rightarrow> v)"

text \<open>The character class \<^verbatim>\<open>[:-]\<close>.\<close>

definition isEtimeSep :: "char \<Rightarrow> bool" where
  "isEtimeSep c = (c = CHR '':'' \<or> c = CHR ''-'')"

definition parseEtime :: "string \<Rightarrow> int option" where
  "parseEtime etimeStr =
     (if etimeStr = [] then None
      else
        (let parts = split_by isEtimeSep etimeStr;
             totalSeconds =
               (if length parts = 4 then
                  parseIntOr0 (parts ! 0) * 86400 + parseIntOr0 (parts ! 1) * 3600 +
                  parseIntOr0 (parts ! 2) * 60 + parseIntOr0 (parts ! 3)
                else if length parts = 3 then
                  parseIntOr0 (parts ! 0) * 3600 + parseIntOr0 (parts ! 1) * 60 +
                  parseIntOr0 (parts ! 2)
                else if length parts = 2 then
                  parseIntOr0 (parts ! 0) * 60 + parseIntOr0 (parts ! 1)
                else 0)
         in if totalSeconds > 0 then Some totalSeconds else None))"

text \<open>
  \<^verbatim>\<open>indexOf(" ")\<close>, \<^verbatim>\<open>lastIndexOf\<close> and \<^verbatim>\<open>substring\<close> (which clamps its
  arguments and swaps them when the first is larger).
\<close>

fun indexOfChar :: "char \<Rightarrow> string \<Rightarrow> nat option" where
  "indexOfChar c [] = None"
| "indexOfChar c (x # xs) = (if x = c then Some 0 else map_option Suc (indexOfChar c xs))"

definition lastIndexOf :: "string \<Rightarrow> string \<Rightarrow> int" where
  "lastIndexOf s e =
     (case find (\<lambda>i. take (length e) (drop i s) = e) (rev [0..<length s + 1]) of
        None \<Rightarrow> - 1
      | Some i \<Rightarrow> int i)"

definition substring :: "string \<Rightarrow> int \<Rightarrow> int \<Rightarrow> string" where
  "substring s a b =
     (let a' = nat (max 0 (min a (int (length s))));
          b' = nat (max 0 (min b (int (length s))))
      in take (max a' b' - min a' b') (drop (min a' b') s))"

record ps_info =
  ps_command :: string
  ps_lifetime :: "int option"

definition orUnknown :: "string \<Rightarrow> string" where
  "orUnknown c = (if c = [] then ''unknown'' else c)"

text \<open>
  The body of the loop over the lines of the \<^verbatim>\<open>ps\<close> output: \<^term>\<open>None\<close> when the
  line is skipped, else the pid and the entry stored for it.
\<close>

definition parsePsLine :: "string \<Rightarrow> (int \<times> ps_info) option" where
  "parsePsLine line =
     (let trimmed = trim line in
      if trimmed = [] then None
      else
        (case indexOfChar CHR '' '' trimmed of
           None \<Rightarrow> None
         | Some firstSpace \<Rightarrow>
             (case parseInt (substring trimmed 0 (int firstSpace)) of
                None \<Rightarrow> None
              | Some p \<Rightarrow>
                  (case firstMatch etimePatterns trimmed of
                     Some etimeStr \<Rightarrow>
                       Some (p, \<lparr>ps_command =
                                   orUnknown (trim (substring trimmed (int firstSpace + 1)
                                                      (lastIndexOf trimmed etimeStr))),
                                 ps_lifetime = parseEtime etimeStr\<rparr>)
                   | None \<Rightarrow>
                       Some (p, \<lparr>ps_command =
                                   orUnknown (trim (drop (firstSpace + 1) trimmed)),
                                 ps_lifetime = None\<rparr>)))))"

definition parsePsOutput :: "string \<Rightarrow> (int \<rightharpoonup> ps_info)" where
  "parsePsOutput output =
     foldl (\<lambda>m line. case parsePsLine line of None \<Rightarrow> m | Some (p, i) \<Rightarrow> m(p \<mapsto> i))
       Map.empty (split_on (CHR 0x0A) (trim output))"

subsection \<open>Vocabulary of the etime claim\<close>

text \<open>
  A group of one or two digits, a group of two digits, and the number a group stands for.
\<close>

definition dig12 :: "string \<Rightarrow> bool" where
  "dig12 x = (list_all isDigit x \<and> (length x = 1 \<or> length x = 2))"

definition dig2 :: "string \<Rightarrow> bool" where
  "dig2 x = (list_all isDigit x \<and> length x = 2)"

text \<open>What precedes a field: a digit, a digit and a dash (a day group), a digit and a colon.\<close>

definition endsDigit :: "string \<Rightarrow> bool" where
  "endsDigit pre = (case rev pre of [] \<Rightarrow> False | c # _ \<Rightarrow> isDigit c)"

definition endsDay :: "string \<Rightarrow> bool" where
  "endsDay pre = (case rev pre of x # c # _ \<Rightarrow> x = CHR ''-'' \<and> isDigit c | _ \<Rightarrow> False)"

definition endsHour :: "string \<Rightarrow> bool" where
  "endsHour pre = (case rev pre of x # c # _ \<Rightarrow> x = CHR '':'' \<and> isDigit c | _ \<Rightarrow> False)"

text \<open>The line ends in digit, colon, two digits: the least any of the patterns needs.\<close>

definition endsTimeLike :: "string \<Rightarrow> bool" where
  "endsTimeLike t =
     (case rev t of b # a # x # c # _ \<Rightarrow> isDigit b \<and> isDigit a \<and> x = CHR '':'' \<and> isDigit c
      | _ \<Rightarrow> False)"

definition toLifetime :: "int \<Rightarrow> int option" where
  "toLifetime n = (if n = 0 then None else Some n)"

text \<open>No suffix of the line has the shape of the pattern.\<close>

definition noSuffix :: "atom list \<Rightarrow> string \<Rightarrow> bool" where
  "noSuffix p t = (\<forall>a b. t = a @ b \<longrightarrow> \<not> fullMatch p b)"

text \<open>Sample lines of \<^verbatim>\<open>ps -o pid=,command=,etime=\<close>.\<close>

definition psLines :: "string list" where
  "psLines =
     [''  4321 node /srv/app.js --at 10:30:00 01:02:03'',
      ''     1 /sbin/init splash 2-03:04:05'',
      ''   812 sh -c sleep 5 05:06'',
      ''    77 /usr/sbin/sshd -D'']"

section \<open>Parsing the listing tools\<close>

text \<open>
  \<^verbatim>\<open>s.split(/\s+/)\<close>: the separators are the maximal runs of whitespace; a run at
  the start or at the end leaves an empty first or last part.
\<close>

function split_ws :: "string \<Rightarrow> string list" where
  "split_ws [] = [[]]"
| "split_ws (x # xs) =
     (if isWhitespace x then [] # split_ws (dropWhile isWhitespace xs)
      else (case split_ws xs of [] \<Rightarrow> [[x]] | w # ws \<Rightarrow> (x # w) # ws))"
  by pat_completeness auto
termination
  by (relation "measure length") (auto simp: le_imp_less_Suc length_dropWhile_le)

text \<open>The lines both parsers loop over: \<^verbatim>\<open>output.trim().split("\n").filter(l => l.trim())\<close>.\<close>

definition outputLines :: "string \<Rightarrow> string list" where
  "outputLines output = filter (\<lambda>line. trim line \<noteq> []) (split_on (CHR 0x0A) (trim output))"

subsection \<open>lsof\<close>

text \<open>
  \<^verbatim>\<open>name.match(/(\*|[\w.]+):(\d+)/)\<close>, second group. At a start position the
  first group is a star, or the longest run of word characters and dots (a shorter run
  is followed by a character of the run, never by the colon); then come the colon and
  the longest run of digits, at least one. The start positions are tried from the left.
\<close>

definition isWordDot :: "char \<Rightarrow> bool" where
  "isWordDot c =
     (isDigit c \<or> (65 \<le> (of_char c :: nat) \<and> (of_char c :: nat) \<le> 90) \<or>
      (97 \<le> (of_char c :: nat) \<and> (of_char c :: nat) \<le> 122) \<or> c = CHR ''_'' \<or> c = CHR ''.'')"

definition colonDigits :: "string \<Rightarrow> string option" where
  "colonDigits s =
     (case s of
        [] \<Rightarrow> None
      | c # rest \<Rightarrow>
          if c = CHR '':'' \<and> takeWhile isDigit rest \<noteq> [] then Some (takeWhile isDigit rest)
          else None)"

definition hostPortAt :: "string \<Rightarrow> string option" where
  "hostPortAt s =
     (case s of
        [] \<Rightarrow> None
      | c # rest \<Rightarrow>
          if c = CHR ''*'' then colonDigits rest
          else if isWordDot c then colonDigits (dropWhile isWordDot s)
          else None)"

fun searchHostPort :: "string \<Rightarrow> string option" where
  "searchHostPort [] = None"
| "searchHostPort (x # xs) =
     (case hostPortAt (x # xs) of Some ds \<Rightarrow> Some ds | None \<Rightarrow> searchHostPort xs)"

text \<open>
  The body of the loop of \<^verbatim>\<open>parseLsofOutput\<close>: \<^term>\<open>None\<close> when the line is
  skipped. \<^verbatim>\<open>parts.length >= 9\<close> makes every index below in range; the port is
  parsed from a run of digits, so it is a number.
\<close>

definition parseLsofLine :: "string \<Rightarrow> PortInfo option" where
  "parseLsofLine line =
     (if startsWith line ''COMMAND'' then None
      else
        (let parts = split_ws (trim line) in
         if length parts < 9 then None
         else
           (let name = join '' '' (drop 8 parts) in
            if parts ! 4 \<noteq> ''IPv4'' \<and> parts ! 4 \<noteq> ''IPv6'' then None
            else if \<not> includes_str name ''(LISTEN)'' then None
            else
              (case searchHostPort name of
                 None \<Rightarrow> None
               | Some ds \<Rightarrow>
                   Some \<lparr>port = digitsValue ds,
                         protocol = (if includes_str name ''UDP'' then UDP else TCP),
                         pid = parseInt (parts ! 1),
                         processName = parts ! 0,
                         command = [],
                         cwd = None,
                         user = parts ! 2,
                         lifetime = None,
                         ptype = None\<rparr>))))"

definition lsofPorts :: "string \<Rightarrow> PortInfo list" where
  "lsofPorts output = List.map_filter parseLsofLine (outputLines output)"

text \<open>
  The merge of the batch-resolved metadata (\<^verbatim>\<open>batchProcessInfo.get(port.pid)\<close>); the
  resolved map is a parameter.
\<close>

definition mergeInfo :: "(jsnum \<Rightarrow> ProcessInfo option) \<Rightarrow> PortInfo \<Rightarrow> PortInfo" where
  "mergeInfo batch q =
     (case batch (pid q) of
        None \<Rightarrow> q
      | Some i \<Rightarrow> q\<lparr>command := pi_command i, cwd := pi_cwd i, lifetime := pi_lifetime i\<rparr>)"

definition parseLsofOutput :: "(jsnum \<Rightarrow> ProcessInfo option) \<Rightarrow> string \<Rightarrow> PortInfo list" where
  "parseLsofOutput batch output = map (mergeInfo batch) (lsofPorts output)"

subsection \<open>netstat\<close>

text \<open>\<^verbatim>\<open>localAddr.match(/:(\d+)$/)\<close>, the group.\<close>

fun searchPortEnd :: "string \<Rightarrow> string option" where
  "searchPortEnd [] = None"
| "searchPortEnd (c # xs) =
     (if c = CHR '':'' \<and> xs \<noteq> [] \<and> list_all isDigit xs then Some xs else searchPortEnd xs)"

definition toUpperChar :: "char \<Rightarrow> char" where
  "toUpperChar c =
     (if 97 \<le> (of_char c :: nat) \<and> (of_char c :: nat) \<le> 122 then char_of ((of_char c :: nat) - 32) else c)"

definition toUpperCase :: "string \<Rightarrow> string" where
  "toUpperCase s = map toUpperChar s"

text \<open>
  The body of the first loop of \<^verbatim>\<open>parseNetstatOutput\<close>. The state test and the pid
  both read the last column, \<^verbatim>\<open>parts[parts.length - 1]\<close>.
\<close>

definition parseNetstatLine :: "string \<Rightarrow> PortInfo option" where
  "parseNetstatLine line =
     (if startsWith line ''Active'' \<or> startsWith line ''Proto'' \<or> startsWith line ''  Proto''
      then None
      else
        (let parts = split_ws (trim line) in
         if length parts < 5 then None
         else if toUpperCase (parts ! 0) \<noteq> ''TCP'' \<and> toUpperCase (parts ! 0) \<noteq> ''UDP'' then None
         else if last parts \<noteq> ''LISTENING'' then None
         else
           (case searchPortEnd (parts ! 1) of
              None \<Rightarrow> None
            | Some ds \<Rightarrow>
                (case parseInt ds of
                   None \<Rightarrow> None
                 | Some n \<Rightarrow>
                     (case parseInt (last parts) of
                        None \<Rightarrow> None
                      | Some p \<Rightarrow>
                          Some \<lparr>port = n,
                                protocol = (if toUpperCase (parts ! 0) = ''UDP'' then UDP else TCP),
                                pid = Some p,
                                processName = [],
                                command = [],
                                cwd = None,
                                user = [],
                                lifetime = None,
                                ptype = None\<rparr>)))))"

text \<open>
  The deduplication: a \<^verbatim>\<open>Map\<close> keyed by \<^verbatim>\<open>`${port}-${pid}`\<close> that keeps the first
  entry of each key, read back in insertion order.
\<close>

definition dedupKey :: "PortInfo \<Rightarrow> string" where
  "dedupKey q = intToString (port q) @ ''-'' @ numToString (pid q)"

fun dedupe :: "PortInfo list \<Rightarrow> PortInfo list \<Rightarrow> PortInfo list" where
  "dedupe seen [] = seen"
| "dedupe seen (q # qs) =
     (if dedupKey q \<in> set (map dedupKey seen) then dedupe seen qs else dedupe (seen @ [q]) qs)"

definition parseNetstatOutput :: "string \<Rightarrow> PortInfo list" where
  "parseNetstatOutput output = dedupe [] (List.map_filter parseNetstatLine (outputLines output))"

text \<open>
  Sample output of \<^verbatim>\<open>lsof -i -P -n\<close> (a daemon listening on the same port over
  IPv4 and IPv6) and of \<^verbatim>\<open>netstat -ano\<close>.
\<close>

definition nl :: string where
  "nl = [CHR 0x0A]"

definition sampleLsof :: string where
  "sampleLsof =
     ''COMMAND  PID USER   FD   TYPE DEVICE SIZE/OFF NODE NAME'' @ nl @
     ''sshd    1234 root    3u  IPv4  23456      0t0  TCP *:22 (LISTEN)'' @ nl @
     ''sshd    1234 root    4u  IPv6  23457      0t0  TCP *:22 (LISTEN)'' @ nl @
     ''node    4321 dev    22u  IPv4  34567      0t0  TCP 127.0.0.1:3000 (LISTEN)'' @ nl @
     ''node    4321 dev    23u  IPv4  34568      0t0  TCP 127.0.0.1:51234->127.0.0.1:5432 (ESTABLISHED)'' @ nl"

definition sampleNetstat :: string where
  "sampleNetstat =
     ''Active Connections'' @ nl @ nl @
     ''  Proto  Local Address          Foreign Address        State           PID'' @ nl @
     ''  TCP    0.0.0.0:3000           0.0.0.0:0              LISTENING       12345'' @ nl @
     ''  TCP    [::]:3000              [::]:0                 LISTENING       12345'' @ nl"

section \<open>Theorems\<close>

subsection \<open>Process termination\<close>

text \<open>
  C10. For every PortInfo, \<^verbatim>\<open>killPort\<close> with \<open>force = false\<close> and \<open>confirm = true\<close>
  (its defaults) returns false and leaves the system as it found it: the world the
  tools act on is unchanged and the trace gains no event, so no command was spawned,
  \<^verbatim>\<open>killProcess\<close> was not reached, and no adapter (hence no cache) was touched.
\<close>

theorem killPort_confirmation_sentinel:
  "killPort plat run portInfo False True s = (False, s)"
  by (simp add: killPort_def)

lemma cache_spawnA: "spawnA run argv a = (r, a') \<Longrightarrow> processInfoCache a' = processInfoCache a"
  by (auto simp: spawnA_def split: prod.splits)

lemma cache_onSys [simp]: "processInfoCache (onSys f a) = processInfoCache a"
  by (simp add: onSys_def)

lemma cache_logIf [simp]: "processInfoCache (logIf b m a) = processInfoCache a"
  by (simp add: logIf_def)

lemma cache_get_delete [simp]: "cache_get ttl now (cache_delete c p) p = None"
  by (simp add: cache_get_def cache_delete_def)

lemma unix_try_cache:
  "unix_killProcess_try run p force a = (r, a') \<Longrightarrow>
     (r = Inr True \<and> processInfoCache a' = cache_delete (processInfoCache a) p) \<or>
     (r \<noteq> Inr True \<and> processInfoCache a' = processInfoCache a)"
  unfolding unix_killProcess_try_def finishKill_def invalidateProcessCache_def
  by (auto split: if_splits prod.splits spawn_outcome.splits dest!: cache_spawnA)

lemma windows_try_cache:
  "windows_killProcess_try run p force a = (r, a') \<Longrightarrow>
     (r = Inr True \<and> processInfoCache a' = cache_delete (processInfoCache a) p) \<or>
     (r \<noteq> Inr True \<and> processInfoCache a' = processInfoCache a)"
  unfolding windows_killProcess_try_def finishKill_def invalidateProcessCache_def
  by (auto split: if_splits prod.splits spawn_outcome.splits dest!: cache_spawnA)

lemma try_cache:
  "adapter_killProcess_try plat run p force a = (r, a') \<Longrightarrow>
     (r = Inr True \<and> processInfoCache a' = cache_delete (processInfoCache a) p) \<or>
     (r \<noteq> Inr True \<and> processInfoCache a' = processInfoCache a)"
  by (cases plat) (auto simp: adapter_killProcess_try_def dest: unix_try_cache windows_try_cache)

lemma adapter_kill_catch:
  "adapter_killProcess plat run p force a = killProcess_catch p (adapter_killProcess_try plat run p force a)"
  by (cases plat) (simp_all add: adapter_killProcess_def adapter_killProcess_try_def unix_killProcess_def windows_killProcess_def)

text \<open>
  C1 (as amended). For every pid and every force flag: when \<^verbatim>\<open>killProcess\<close>
  returns true, and when an internal error is caught (it then returns false), the cache
  entry of that pid has been deleted, so a lookup at any time is a miss. When it returns
  false without an error (a termination request exited non-zero), the cache is exactly
  as it was: the invalidation is guarded by \<^verbatim>\<open>if (killed)\<close>, and the early
  return after a failed graceful request leaves before it.
\<close>

theorem killProcess_cache_invalidation:
  "(fst (adapter_killProcess_try plat run p force a) = Inr True \<longrightarrow>
      fst (adapter_killProcess plat run p force a) = True \<and>
      cache_get ttl now (processInfoCache (snd (adapter_killProcess plat run p force a))) p = None) \<and>
   (fst (adapter_killProcess_try plat run p force a) = Inl () \<longrightarrow>
      fst (adapter_killProcess plat run p force a) = False \<and>
      cache_get ttl now (processInfoCache (snd (adapter_killProcess plat run p force a))) p = None) \<and>
   (fst (adapter_killProcess_try plat run p force a) = Inr False \<longrightarrow>
      fst (adapter_killProcess plat run p force a) = False \<and>
      processInfoCache (snd (adapter_killProcess plat run p force a)) = processInfoCache a)"
proof -
  obtain r a' where t: "adapter_killProcess_try plat run p force a = (r, a')"
    by (cases "adapter_killProcess_try plat run p force a")
  from try_cache [OF t] show ?thesis
    unfolding adapter_kill_catch t
    by (cases r) (auto simp: killProcess_catch_def invalidateProcessCache_def)
qed

lemma spawnA_eq:
  "run (world (sys a)) argv = (r, w') \<Longrightarrow>
   spawnA run argv a = (r, a\<lparr>sys := (sys a)\<lparr>world := w', trace := trace (sys a) @ [Spawn argv]\<rparr>\<rparr>)"
  by (simp add: spawnA_def spawnProcess_def)

lemma forceCmd_neq: "gracefulCmd plat p \<noteq> forceCmd plat p" "livenessCmd plat p \<noteq> forceCmd plat p"
  by (cases plat; simp add: gracefulCmd_def forceCmd_def livenessCmd_def)+


lemma numToString_42 [simp]: "numToString (Some 42) = ''42''"
  by (simp add: numToString_def intToString_def natToString.simps digitChar_def)


text \<open>
  C1 as stated fails: a forced kill whose \<^verbatim>\<open>kill -9\<close> exits 1 returns false
  and the entry cached for the pid is still served.
\<close>

theorem killProcess_cache_counterexample:
  "fst (adapter_killProcess Unix run_script (Some 42) True
          (scripted [exited 1 [] ''kill: (42): Operation not permitted'']
             (cache_set 0 Map.empty (Some 42) someInfo))) = False \<and>
   cache_get 30000 1 (processInfoCache (snd (adapter_killProcess Unix run_script (Some 42) True
          (scripted [exited 1 [] ''kill: (42): Operation not permitted'']
             (cache_set 0 Map.empty (Some 42) someInfo))))) (Some 42) = Some someInfo"
  by (simp add: adapter_killProcess_def unix_killProcess_def unix_killProcess_try_def
      killProcess_catch_def finishKill_def logIf_def onSys_def spawnA_def spawnProcess_def
      run_script_def scripted_def exited_def cache_get_def cache_set_def logError_def)

theorem killProcess_cache_invalidation_witness:
  "(fst (adapter_killProcess Unix run_script (Some 42) True
          (scripted [exited 0 [] []] (cache_set 0 Map.empty (Some 42) someInfo))) = True \<and>
    cache_get 30000 1 (processInfoCache (snd (adapter_killProcess Unix run_script (Some 42) True
          (scripted [exited 0 [] []] (cache_set 0 Map.empty (Some 42) someInfo))))) (Some 42) = None) \<and>
   (fst (adapter_killProcess Windows run_script (Some 42) False
          (scripted [] (cache_set 0 Map.empty (Some 42) someInfo))) = False \<and>
    cache_get 30000 1 (processInfoCache (snd (adapter_killProcess Windows run_script (Some 42) False
          (scripted [] (cache_set 0 Map.empty (Some 42) someInfo))))) (Some 42) = None) \<and>
   (fst (adapter_killProcess Unix run_script (Some 42) False
          (scripted [exited 1 [] []] (cache_set 0 Map.empty (Some 42) someInfo))) = False \<and>
    processInfoCache (snd (adapter_killProcess Unix run_script (Some 42) False
          (scripted [exited 1 [] []] (cache_set 0 Map.empty (Some 42) someInfo)))) =
      cache_set 0 Map.empty (Some 42) someInfo)"
proof -
  have 1: "fst (adapter_killProcess_try Unix run_script (Some 42) True
          (scripted [exited 0 [] []] (cache_set 0 Map.empty (Some 42) someInfo))) = Inr True"
    by (simp add: adapter_killProcess_try_def unix_killProcess_try_def finishKill_def logIf_def
        spawnA_def spawnProcess_def run_script_def scripted_def exited_def)
  have 2: "fst (adapter_killProcess_try Windows run_script (Some 42) False
          (scripted [] (cache_set 0 Map.empty (Some 42) someInfo))) = Inl ()"
    by (simp add: adapter_killProcess_try_def windows_killProcess_try_def
        spawnA_def spawnProcess_def run_script_def scripted_def)
  have 3: "fst (adapter_killProcess_try Unix run_script (Some 42) False
          (scripted [exited 1 [] []] (cache_set 0 Map.empty (Some 42) someInfo))) = Inr False"
    by (simp add: adapter_killProcess_try_def unix_killProcess_try_def finishKill_def logIf_def
        spawnA_def spawnProcess_def run_script_def scripted_def exited_def)
  show ?thesis
    using killProcess_cache_invalidation [of Unix run_script "Some 42" True
        "scripted [exited 0 [] []] (cache_set 0 Map.empty (Some 42) someInfo)" 30000 1]
      killProcess_cache_invalidation [of Windows run_script "Some 42" False
        "scripted [] (cache_set 0 Map.empty (Some 42) someInfo)" 30000 1]
      killProcess_cache_invalidation [of Unix run_script "Some 42" False
        "scripted [exited 1 [] []] (cache_set 0 Map.empty (Some 42) someInfo)" 30000 1]
    unfolding 1 2 3
    by (simp add: scripted_def)
qed

subsection \<open>Killing by port number\<close>

lemma spawnA_trace:
  "spawnA run argv a = (r, a') \<Longrightarrow> trace (sys a') = trace (sys a) @ [Spawn argv]"
  by (auto simp: spawnA_def spawnProcess_def split: prod.splits)

lemma finishKill_trace: "finishKill p k a = (r, a') \<Longrightarrow> trace (sys a') = trace (sys a)"
  by (auto simp: finishKill_def invalidateProcessCache_def split: if_splits)

lemma logIf_trace: "\<exists>evs. trace (sys (logIf b m a)) = trace (sys a) @ evs"
  by (simp add: logIf_def onSys_def logError_def)

lemma unix_try_first:
  "unix_killProcess_try run p force a = (r, a') \<Longrightarrow>
   \<exists>evs. trace (sys a') = trace (sys a) @ Spawn (firstCmd Unix p force) # evs"
  unfolding unix_killProcess_try_def firstCmd_def forceCmd_def gracefulCmd_def
  by (auto split: if_splits prod.splits spawn_outcome.splits
      simp: logIf_def onSys_def logError_def wait_def finishKill_def invalidateProcessCache_def
      dest!: spawnA_trace)

lemma windows_try_first:
  "windows_killProcess_try run p force a = (r, a') \<Longrightarrow>
   \<exists>evs. trace (sys a') = trace (sys a) @ Spawn (firstCmd Windows p force) # evs"
  unfolding windows_killProcess_try_def firstCmd_def forceCmd_def gracefulCmd_def
  by (auto split: if_splits prod.splits spawn_outcome.splits
      simp: logIf_def onSys_def logError_def wait_def finishKill_def invalidateProcessCache_def
      dest!: spawnA_trace)

lemma catch_trace:
  "killProcess_catch p (r, a) = (b, a') \<Longrightarrow> \<exists>evs. trace (sys a') = trace (sys a) @ evs"
  by (cases r) (auto simp: killProcess_catch_def onSys_def logError_def invalidateProcessCache_def)

lemma killProcess_first:
  assumes "killProcess plat run p force s = (b, s')"
  shows "\<exists>evs. trace s' = trace s @ Spawn (firstCmd plat p force) # evs"
proof -
  obtain r a1 where t: "adapter_killProcess_try plat run p force (getPlatformAdapter s) = (r, a1)"
    by (cases "adapter_killProcess_try plat run p force (getPlatformAdapter s)")
  then obtain e1 where e1: "trace (sys a1) = trace s @ Spawn (firstCmd plat p force) # e1"
    by (cases plat)
      (auto simp: adapter_killProcess_try_def getPlatformAdapter_def
        dest!: unix_try_first windows_try_first)
  obtain b2 a2 where c: "killProcess_catch p (r, a1) = (b2, a2)"
    by (cases "killProcess_catch p (r, a1)")
  then obtain e2 where e2: "trace (sys a2) = trace (sys a1) @ e2"
    using catch_trace by blast
  have "s' = sys a2"
    using assms c t by (simp add: killProcess_def adapter_kill_catch)
  with e1 e2 show ?thesis by simp
qed

lemma killLoop_spec:
  "killLoop plat run force qs (kd, fd, s) = (kd', fd', s') \<Longrightarrow>
   (\<exists>evs. trace s' = trace s @ evs \<and>
      (\<forall>q \<in> set qs. Spawn (firstCmd plat (pid q) force) \<in> set evs)) \<and>
   (\<exists>ks fs. kd' = kd @ ks \<and> fd' = fd @ fs \<and> set ks \<union> set fs = set qs \<and>
      length ks + length fs = length qs)"
proof (induction qs arbitrary: kd fd s)
  case Nil
  then show ?case by simp
next
  case (Cons q qs)
  obtain b s1 where k: "killProcess plat run (pid q) force s = (b, s1)"
    by (cases "killProcess plat run (pid q) force s")
  from killProcess_first [OF k] obtain e1 where
    e1: "trace s1 = trace s @ Spawn (firstCmd plat (pid q) force) # e1" by blast
  show ?case
  proof (cases b)
    case True
    with Cons.prems k have "killLoop plat run force qs (kd @ [q], fd, s1) = (kd', fd', s')"
      by simp
    from Cons.IH [OF this] obtain evs ks fs where
      "trace s' = trace s1 @ evs" "\<forall>q \<in> set qs. Spawn (firstCmd plat (pid q) force) \<in> set evs"
      "kd' = (kd @ [q]) @ ks" "fd' = fd @ fs" "set ks \<union> set fs = set qs"
      "length ks + length fs = length qs"
      by blast
    with e1 show ?thesis
      by (auto intro!: exI [of _ "q # ks"] exI [of _ fs])
  next
    case False
    with Cons.prems k have "killLoop plat run force qs (kd, fd @ [q], s1) = (kd', fd', s')"
      by simp
    from Cons.IH [OF this] obtain evs ks fs where
      "trace s' = trace s1 @ evs" "\<forall>q \<in> set qs. Spawn (firstCmd plat (pid q) force) \<in> set evs"
      "kd' = kd @ ks" "fd' = (fd @ [q]) @ fs" "set ks \<union> set fs = set qs"
      "length ks + length fs = length qs"
      by blast
    with e1 show ?thesis
      by (auto intro!: exI [of _ ks] exI [of _ "q # fs"])
  qed
qed

lemma partial_distinct:
  "partialMessage k n f \<noteq> failedMessage n'"
  "partialMessage k n f \<noteq> successMessage k' n'"
  "partialMessage k n f \<noteq> noProcessMessage n'"
  "partialMessage k n f \<noteq> errorMessage n' err"
  by (simp_all add: partialMessage_def failedMessage_def successMessage_def noProcessMessage_def
      errorMessage_def)

text \<open>
  C6. When the detector returns a snapshot, \<^verbatim>\<open>killPortByNumber(port, force)\<close>
  calls \<^verbatim>\<open>killProcess\<close> for every entry of the snapshot bound to that port (the
  first command of each kill is in the trace), and every such entry ends in the killed or
  in the failed list. With no entry on the port, and with every kill failed, the result
  is \<open>success = false\<close> with an empty killed list; with some killed and some failed
  it is \<open>success = true\<close> with the killed list and a message that differs from the
  messages of total failure, of no process found and of full success.
\<close>

theorem killPortByNumber_report:
  assumes "detectPorts s = (Inr found, sa)"
    and "killLoop plat run force (filter (\<lambda>q. port q = n) found) ([], [], sa) = (kd, fd, sb)"
  shows "(\<forall>q \<in> set (filter (\<lambda>q. port q = n) found).
            Spawn (firstCmd plat (pid q) force) \<in> set (drop (length (trace sa)) (trace sb))) \<and>
         set kd \<union> set fd = set (filter (\<lambda>q. port q = n) found) \<and>
         (filter (\<lambda>q. port q = n) found = [] \<longrightarrow>
            killPortByNumber plat run detectPorts n force s =
              (\<lparr>success = False, killed = [], message = noProcessMessage n\<rparr>, sa)) \<and>
         (filter (\<lambda>q. port q = n) found \<noteq> [] \<and> kd = [] \<longrightarrow>
            killPortByNumber plat run detectPorts n force s =
              (\<lparr>success = False, killed = [], message = failedMessage n\<rparr>, sb)) \<and>
         (kd \<noteq> [] \<and> fd \<noteq> [] \<longrightarrow>
            killPortByNumber plat run detectPorts n force s =
              (\<lparr>success = True, killed = kd, message = partialMessage (length kd) n (length fd)\<rparr>, sb) \<and>
            partialMessage (length kd) n (length fd) \<noteq> failedMessage n \<and>
            partialMessage (length kd) n (length fd) \<noteq> noProcessMessage n \<and>
            partialMessage (length kd) n (length fd) \<noteq> successMessage (length kd) n)"
proof -
  let ?m = "filter (\<lambda>q. port q = n) found"
  from killLoop_spec [OF assms(2)] obtain evs where
    tr: "trace sb = trace sa @ evs"
    and att: "\<forall>q \<in> set ?m. Spawn (firstCmd plat (pid q) force) \<in> set evs"
    and part: "set kd \<union> set fd = set ?m"
    by auto
  have a: "\<forall>q \<in> set ?m. Spawn (firstCmd plat (pid q) force) \<in> set (drop (length (trace sa)) (trace sb))"
    using tr att by simp
  have b: "?m = [] \<longrightarrow> killPortByNumber plat run detectPorts n force s =
              (\<lparr>success = False, killed = [], message = noProcessMessage n\<rparr>, sa)"
    using assms(1) by (simp add: killPortByNumber_def)
  have c: "?m \<noteq> [] \<and> kd = [] \<longrightarrow> killPortByNumber plat run detectPorts n force s =
              (\<lparr>success = False, killed = [], message = failedMessage n\<rparr>, sb)"
    using assms by (simp add: killPortByNumber_def)
  have "?m \<noteq> []" if "kd \<noteq> []"
  proof
    assume e: "?m = []"
    have "set kd \<subseteq> set ?m" using part by blast
    then have "set kd \<subseteq> {}" unfolding e by simp
    with that show False by simp
  qed
  then have d: "kd \<noteq> [] \<and> fd \<noteq> [] \<longrightarrow> killPortByNumber plat run detectPorts n force s =
              (\<lparr>success = True, killed = kd, message = partialMessage (length kd) n (length fd)\<rparr>, sb)"
    using assms by (simp add: killPortByNumber_def)
  show ?thesis
    using a part b c d partial_distinct by blast
qed

theorem killPortByNumber_report_witness:
  "fst (killPortByNumber Unix run_script (detected [listener 3000 10, listener 8080 12, listener 3000 11])
          3000 True \<lparr>world = [exited 0 [] [], exited 1 [] ''kill: (11): Operation not permitted''], trace = []\<rparr>) =
     \<lparr>success = True, killed = [listener 3000 10],
      message = ''Killed 1 process(es) on port 3000, but 1 failed''\<rparr> \<and>
   trace (snd (killPortByNumber Unix run_script (detected [listener 3000 10, listener 8080 12, listener 3000 11])
          3000 True \<lparr>world = [exited 0 [] [], exited 1 [] ''kill: (11): Operation not permitted''], trace = []\<rparr>)) =
     [Spawn [''kill'', ''-9'', ''10''], Spawn [''kill'', ''-9'', ''11''],
      LogError ''Failed to kill process 11: kill: (11): Operation not permitted'']"
proof -
  let ?s = "\<lparr>world = [exited 0 [] [], exited 1 [] ''kill: (11): Operation not permitted''], trace = []\<rparr>"
  let ?ports = "[listener 3000 10, listener 8080 12, listener 3000 11]"
  have loop: "killLoop Unix run_script True (filter (\<lambda>q. port q = 3000) ?ports) ([], [], ?s) =
     ([listener 3000 10], [listener 3000 11],
      \<lparr>world = [], trace = [Spawn [''kill'', ''-9'', ''10''], Spawn [''kill'', ''-9'', ''11''],
        LogError ''Failed to kill process 11: kill: (11): Operation not permitted'']\<rparr>)"
    by (simp add: listener_def killProcess_def adapter_killProcess_def unix_killProcess_def
        unix_killProcess_try_def killProcess_catch_def finishKill_def logIf_def onSys_def
        spawnA_def spawnProcess_def run_script_def exited_def getPlatformAdapter_def
        invalidateProcessCache_def logError_def numToString_def intToString_def
        natToString.simps digitChar_def)
  have det: "detected ?ports ?s = (Inr ?ports, ?s)"
    by (simp add: detected_def)
  show ?thesis
    using killPortByNumber_report [where detectPorts = "detected ?ports" and s = ?s and found = ?ports
        and sa = ?s and plat = Unix and run = run_script and force = True and n = 3000
        and kd = "[listener 3000 10]" and fd = "[listener 3000 11]"
        and sb = "\<lparr>world = [], trace = [Spawn [''kill'', ''-9'', ''10''], Spawn [''kill'', ''-9'', ''11''],
          LogError ''Failed to kill process 11: kill: (11): Operation not permitted'']\<rparr>"]
    unfolding det loop
    by (simp add: listener_def partialMessage_def intToString_def natToString.simps digitChar_def)
qed

subsection \<open>Selection and rendering\<close>

lemma getFilteredPorts_sel [simp]: "selectedIndex (snd (getFilteredPorts d)) = selectedIndex d"
  by (simp add: getFilteredPorts_def Let_def split: option.splits)

text \<open>
  C9. Let \<open>N\<close> be the length of the filtered, flattened port list
  (\<^verbatim>\<open>getFilteredPorts()\<close>). If \<open>N \<ge> 1\<close>, \<^verbatim>\<open>moveSelection(-1)\<close> at index 0
  sets the index to \<open>N - 1\<close> and \<^verbatim>\<open>moveSelection(+1)\<close> at index \<open>N - 1\<close> sets
  it to 0; if \<open>N = 0\<close>, \<^verbatim>\<open>moveSelection\<close> leaves the selection unchanged.
\<close>

theorem moveSelection_wraps:
  "getFilteredPorts d = (flatPorts, d') \<Longrightarrow>
   (length flatPorts \<ge> 1 \<and> selectedIndex d = 0 \<longrightarrow>
      selectedIndex (moveSelection (- 1) d) = int (length flatPorts) - 1) \<and>
   (length flatPorts \<ge> 1 \<and> selectedIndex d = int (length flatPorts) - 1 \<longrightarrow>
      selectedIndex (moveSelection 1 d) = 0) \<and>
   (length flatPorts = 0 \<longrightarrow> selectedIndex (moveSelection direction d) = selectedIndex d)"
  using getFilteredPorts_sel [of d]
  by (auto simp: moveSelection_def Let_def)

lemma getFilteredPorts_frame:
  "getFilteredPorts d = (flat, d1) \<Longrightarrow> d1 = d\<lparr>filteredPortsCache := filteredPortsCache d1\<rparr>"
  by (auto simp: getFilteredPorts_def Let_def split: if_splits option.splits)

lemma foldl_unchanged:
  "\<forall>i \<in> set ixs. \<not> rowChanged (ps ! i) (cs ! i) \<Longrightarrow>
   foldl (\<lambda>acc i. if rowChanged (ps ! i) (cs ! i) then addLine (int i + 2) acc else acc) acc ixs = acc"
  by (induction ixs arbitrary: acc) auto

lemma changedLines_selection_only:
  assumes "list_all2 (\<lambda>a b. \<not> rowChanged a b) (rs_filteredPorts previous) (rs_filteredPorts current)"
    and "rs_selectedIndex previous \<noteq> rs_selectedIndex current"
  shows "changedLines height previous current d =
           [rs_selectedIndex previous + 2, rs_selectedIndex current + 2]"
proof -
  let ?n = "min (length (rs_filteredPorts previous)) (length (rs_filteredPorts current))"
  have "\<forall>i \<in> set (takeWhile (\<lambda>i. int i + 2 < maxHeightOf height d) [0..<?n]).
          \<not> rowChanged (rs_filteredPorts previous ! i) (rs_filteredPorts current ! i)"
  proof
    fix i assume "i \<in> set (takeWhile (\<lambda>i. int i + 2 < maxHeightOf height d) [0..<?n])"
    then have "i \<in> set [0..<?n]" by (rule set_takeWhileD [THEN conjunct1])
    then have "i < length (rs_filteredPorts previous)" by simp
    with assms(1) show "\<not> rowChanged (rs_filteredPorts previous ! i) (rs_filteredPorts current ! i)"
      by (rule list_all2_nthD)
  qed
  from foldl_unchanged [OF this] show ?thesis
    using assms(2) by (simp add: changedLines_def addLine_def)
qed

text \<open>
  C5 (as amended). No modal is active and the previous frame was a main-view frame.
  \<^item> If only the selection changed since that frame (rows equal field by field, same
    filter text, sort key and detail flag, no toast) and two changed lines do not exceed
    half the row budget (\<open>maxHeight \<ge> 4\<close>), the frame is a delta repaint: the header,
    those of the old- and new-selection lines that lie inside the row budget and the
    list, and, when details are visible and a row is selected, the detail footer.
  \<^item> If the sort key or the filter text changed, the frame is a full repaint.
  \<^item> If a delta pass is possible but its changed-line count exceeds half of the
    row budget, the frame is a full repaint.
\<close>

theorem render_strategy:
  assumes "\<not> modalOpen d" and "previousRenderState d = Some previous"
    and "getFilteredPorts d = (flatPorts, d1)"
  shows
    "(killMessage d = None \<and>
      list_all2 (\<lambda>a b. \<not> rowChanged a b) (rs_filteredPorts previous) flatPorts \<and>
      rs_filter previous = filter_s d \<and> rs_sortBy previous = sortBy d \<and>
      rs_showDetails previous = showDetails d \<and>
      rs_selectedIndex previous \<noteq> selectedIndex d \<and> 4 \<le> maxHeightOf height d \<longrightarrow>
      fst (render now height d) =
        [HideCursor, Header] @
        map (\<lambda>l. PortLine (l - 2) l)
          (filter (\<lambda>l. l \<ge> 2 \<and> l < maxHeightOf height d \<and> l - 2 < int (length flatPorts))
             [rs_selectedIndex previous + 2, selectedIndex d + 2]) @
        (if showDetails d \<and> selectedOf flatPorts (selectedIndex d) \<noteq> None then [Details] else []) @
        [Flush]) \<and>
     (rs_filter previous \<noteq> filter_s d \<or> rs_sortBy previous \<noteq> sortBy d \<longrightarrow>
      fst (render now height d) = fullPaint height flatPorts (expireKillMessage now d1)) \<and>
     (canUseDelta (Some previous) (currentStateOf flatPorts d) (expireKillMessage now d1) \<and>
      2 * int (length (changedLines height previous (currentStateOf flatPorts d)
                         (expireKillMessage now d1))) > maxHeightOf height d \<longrightarrow>
      fst (render now height d) = fullPaint height flatPorts (expireKillMessage now d1))"
proof -
  note fr = getFilteredPorts_frame [OF assms(3)]
  have f: "showHelp d1 = showHelp d" "showDetails d1 = showDetails d" "selectedIndex d1 = selectedIndex d"
    "filter_s d1 = filter_s d" "sortBy d1 = sortBy d" "killMessage d1 = killMessage d"
    "killMessageExpiresAt d1 = killMessageExpiresAt d" "previousRenderState d1 = previousRenderState d"
    by (subst fr, simp)+
  have cs: "currentStateOf flatPorts d1 = currentStateOf flatPorts d"
    by (simp add: currentStateOf_def f)
  have e: "previousRenderState (expireKillMessage now d1) = Some previous"
    "showDetails (expireKillMessage now d1) = showDetails d"
    "selectedIndex (expireKillMessage now d1) = selectedIndex d"
    using assms(2) by (auto simp: expireKillMessage_def f split: option.splits)
  have mh: "maxHeightOf height (expireKillMessage now d1) = maxHeightOf height d"
    by (simp add: maxHeightOf_def e)
  have nm: "\<not> (showHelp d \<or> showConfirm d \<or> showLogs d \<or> showCommand d \<or> showStats d)"
    using assms(1) by (simp add: modalOpen_def)
  have r: "fst (render now height d) =
      (if canUseDelta (Some previous) (currentStateOf flatPorts d) (expireKillMessage now d1)
       then renderDelta height previous (currentStateOf flatPorts d) (expireKillMessage now d1)
       else fullPaint height flatPorts (expireKillMessage now d1))"
    using nm assms(3) by (simp add: render_def Let_def cs e)
  have A: "fst (render now height d) =
        [HideCursor, Header] @
        map (\<lambda>l. PortLine (l - 2) l)
          (filter (\<lambda>l. l \<ge> 2 \<and> l < maxHeightOf height d \<and> l - 2 < int (length flatPorts))
             [rs_selectedIndex previous + 2, selectedIndex d + 2]) @
        (if showDetails d \<and> selectedOf flatPorts (selectedIndex d) \<noteq> None then [Details] else []) @
        [Flush]"
    if h: "killMessage d = None"
      "list_all2 (\<lambda>a b. \<not> rowChanged a b) (rs_filteredPorts previous) flatPorts"
      "rs_filter previous = filter_s d" "rs_sortBy previous = sortBy d"
      "rs_showDetails previous = showDetails d"
      "rs_selectedIndex previous \<noteq> selectedIndex d" "4 \<le> maxHeightOf height d"
  proof -
    have k: "expireKillMessage now d1 = d1"
      using h(1) by (simp add: expireKillMessage_def f)
    have len: "length (rs_filteredPorts previous) = length flatPorts"
      using h(2) by (rule list_all2_lengthD)
    have c: "canUseDelta (Some previous) (currentStateOf flatPorts d) d1"
      using h len by (simp add: canUseDelta_def currentStateOf_def f)
    have cl: "changedLines height previous (currentStateOf flatPorts d) d1 =
        [rs_selectedIndex previous + 2, selectedIndex d + 2]"
      using changedLines_selection_only [of previous "currentStateOf flatPorts d" height d1] h
      by (simp add: currentStateOf_def)
    have mh1: "maxHeightOf height d1 = maxHeightOf height d"
      by (simp add: maxHeightOf_def f)
    have rd: "renderDelta height previous (currentStateOf flatPorts d) d1 =
        deltaPaint height [rs_selectedIndex previous + 2, selectedIndex d + 2] flatPorts d1"
      unfolding renderDelta_def cl using h(7) mh1 by (simp add: currentStateOf_def)
    have "fst (render now height d) =
        deltaPaint height [rs_selectedIndex previous + 2, selectedIndex d + 2] flatPorts d1"
      unfolding r k using c rd by simp
    then show ?thesis
      using h(1) by (simp add: deltaPaint_def f mh1)
  qed
  have B: "fst (render now height d) = fullPaint height flatPorts (expireKillMessage now d1)"
    if "rs_filter previous \<noteq> filter_s d \<or> rs_sortBy previous \<noteq> sortBy d"
    unfolding r using that by (auto simp: canUseDelta_def currentStateOf_def)
  have C: "fst (render now height d) = fullPaint height flatPorts (expireKillMessage now d1)"
    if "canUseDelta (Some previous) (currentStateOf flatPorts d) (expireKillMessage now d1)"
      "2 * int (length (changedLines height previous (currentStateOf flatPorts d)
                         (expireKillMessage now d1))) > maxHeightOf height d"
    unfolding r using that by (simp add: renderDelta_def mh currentStateOf_def)
  from A B C show ?thesis by blast
qed

lemma moved_facts:
  "\<not> modalOpen (movedDashboard h)"
  "previousRenderState (movedDashboard h) = Some samplePrevious"
  "fst (getFilteredPorts (movedDashboard h)) = sampleFlat"
  "killMessage (movedDashboard h) = None"
  "selectedIndex (movedDashboard h) = 1"
  "filter_s (movedDashboard h) = []"
  "sortBy (movedDashboard h) = ByPort"
  "showDetails (movedDashboard h) = True"
  by (simp_all add: movedDashboard_def firstFrame_def moveSelection_def render_def
      getFilteredPorts_def sampleDashboard_def initialDashboard_def Let_def modalOpen_def
      expireKillMessage_def currentStateOf_def samplePrevious_def sampleFlat_def flatten_def
      sampleGroup_def matchesFilter_def)

text \<open>
  C5 as stated fails. After a first frame of three rows, moving the selection from row 0
  to row 1 changes nothing else. On a 24-line terminal the delta repaint also writes the
  detail footer (lines 20 and 21), not exactly the header and the two selection lines;
  on a 9-line terminal the row budget is 3, two changed lines exceed half of it, and the
  frame is a full repaint.
\<close>

theorem render_selection_counterexample:
  "\<not> modalOpen (movedDashboard 24) \<and>
   previousRenderState (movedDashboard 24) = Some samplePrevious \<and>
   currentStateOf (fst (getFilteredPorts (movedDashboard 24))) (movedDashboard 24) =
     samplePrevious\<lparr>rs_selectedIndex := 1\<rparr> \<and>
   killMessage (movedDashboard 24) = None \<and>
   fst (render 0 24 (movedDashboard 24)) =
     [HideCursor, Header, PortLine 0 2, PortLine 1 3, Details, Flush] \<and>
   paintedLines 24 (fst (render 0 24 (movedDashboard 24))) = [0, 2, 3, 20, 21] \<and>
   previousRenderState (movedDashboard 9) = Some samplePrevious \<and>
   currentStateOf (fst (getFilteredPorts (movedDashboard 9))) (movedDashboard 9) =
     samplePrevious\<lparr>rs_selectedIndex := 1\<rparr> \<and>
   fst (render 0 9 (movedDashboard 9)) =
     [Clear, HideCursor, Header, PortLine 0 2, Details, Footer, Flush]"
  by code_simp

lemma resorted_facts:
  "\<not> modalOpen resortedDashboard"
  "previousRenderState resortedDashboard = Some samplePrevious"
  "fst (getFilteredPorts resortedDashboard) = sampleFlat"
  "sortBy resortedDashboard = ByPid"
  by (simp_all add: resortedDashboard_def movedDashboard_def firstFrame_def moveSelection_def render_def
      getFilteredPorts_def sampleDashboard_def initialDashboard_def Let_def modalOpen_def
      expireKillMessage_def currentStateOf_def samplePrevious_def sampleFlat_def flatten_def
      sampleGroup_def matchesFilter_def)

lemma sample_rows:
  "list_all2 (\<lambda>a b. \<not> rowChanged a b) (rs_filteredPorts samplePrevious) sampleFlat"
  "length sampleFlat = 3"
  "selectedOf sampleFlat 1 \<noteq> None"
  "rs_selectedIndex samplePrevious = 0"
  "rs_filter samplePrevious = []"
  "rs_sortBy samplePrevious = ByPort"
  "rs_showDetails samplePrevious = True"
  "length (rs_filteredPorts samplePrevious) = 3"
  by code_simp+

theorem render_strategy_witness:
  "fst (render 0 24 (movedDashboard 24)) =
     [HideCursor, Header, PortLine 0 2, PortLine 1 3, Details, Flush] \<and>
   fst (render 0 24 resortedDashboard) =
     fullPaint 24 sampleFlat (expireKillMessage 0 (snd (getFilteredPorts resortedDashboard))) \<and>
   fst (render 0 9 (movedDashboard 9)) =
     fullPaint 9 sampleFlat (expireKillMessage 0 (snd (getFilteredPorts (movedDashboard 9))))"
proof -
  have g: "getFilteredPorts (movedDashboard h) = (sampleFlat, snd (getFilteredPorts (movedDashboard h)))" for h
    using moved_facts(3) [of h] by (metis prod.collapse)
  have g': "getFilteredPorts resortedDashboard = (sampleFlat, snd (getFilteredPorts resortedDashboard))"
    using resorted_facts(3) by (metis prod.collapse)
  have A: "fst (render 0 24 (movedDashboard 24)) =
     [HideCursor, Header, PortLine 0 2, PortLine 1 3, Details, Flush]"
    using render_strategy [OF moved_facts(1) moved_facts(2) g, of 24 24 0]
    by (simp add: moved_facts sample_rows maxHeightOf_def)
  have B: "fst (render 0 24 resortedDashboard) =
     fullPaint 24 sampleFlat (expireKillMessage 0 (snd (getFilteredPorts resortedDashboard)))"
    using render_strategy [OF resorted_facts(1) resorted_facts(2) g', of 24 0]
    by (simp add: resorted_facts sample_rows)
  have k: "expireKillMessage 0 (snd (getFilteredPorts (movedDashboard 9))) =
      snd (getFilteredPorts (movedDashboard 9))"
    "showDetails (snd (getFilteredPorts (movedDashboard 9))) = True"
    "killMessage (snd (getFilteredPorts (movedDashboard 9))) = None"
    by code_simp+
  have cl: "changedLines 9 samplePrevious (currentStateOf sampleFlat (movedDashboard 9))
       (snd (getFilteredPorts (movedDashboard 9))) = [2, 3]"
    by code_simp
  have C: "fst (render 0 9 (movedDashboard 9)) =
     fullPaint 9 sampleFlat (expireKillMessage 0 (snd (getFilteredPorts (movedDashboard 9))))"
    using render_strategy [OF moved_facts(1) moved_facts(2) g, of 9 9 0]
    unfolding k cl
    by (simp add: moved_facts sample_rows maxHeightOf_def canUseDelta_def currentStateOf_def k)
  from A B C show ?thesis by simp
qed

theorem moveSelection_wraps_witness:
  "selectedIndex (moveSelection (- 1) sampleDashboard) = 2 \<and>
   selectedIndex (moveSelection 1 (sampleDashboard\<lparr>selectedIndex := 2\<rparr>)) = 0 \<and>
   selectedIndex (moveSelection 1 (initialDashboard\<lparr>selectedIndex := 5\<rparr>)) = 5"
proof -
  have a: "getFilteredPorts sampleDashboard = (sampleFlat, snd (getFilteredPorts sampleDashboard))"
    by code_simp
  have b: "getFilteredPorts (sampleDashboard\<lparr>selectedIndex := 2\<rparr>) =
      (sampleFlat, snd (getFilteredPorts (sampleDashboard\<lparr>selectedIndex := 2\<rparr>)))"
    by code_simp
  have c: "getFilteredPorts (initialDashboard\<lparr>selectedIndex := 5\<rparr>) =
      ([], snd (getFilteredPorts (initialDashboard\<lparr>selectedIndex := 5\<rparr>)))"
    by code_simp
  have s: "selectedIndex sampleDashboard = 0"
    by (simp add: sampleDashboard_def initialDashboard_def)
  show ?thesis
    using moveSelection_wraps [OF a, of 1] moveSelection_wraps [OF b, of 1]
      moveSelection_wraps [OF c, of 1] s sample_rows(2)
    by simp
qed

subsection \<open>The handlers\<close>

lemma render_frame:
  "snd (render now h d) =
     d\<lparr>filteredPortsCache := filteredPortsCache (snd (render now h d)),
       killMessage := killMessage (snd (render now h d)),
       killMessageExpiresAt := killMessageExpiresAt (snd (render now h d)),
       previousRenderState := previousRenderState (snd (render now h d))\<rparr>"
  by (auto simp: render_def getFilteredPorts_def Let_def expireKillMessage_def
      split: prod.splits option.splits if_splits)

lemma doRender_flags [simp]:
  "showHelp (doRender e d) = showHelp d"
  "showConfirm (doRender e d) = showConfirm d"
  "showLogs (doRender e d) = showLogs d"
  "showCommand (doRender e d) = showCommand d"
  "showStats (doRender e d) = showStats d"
  "searching (doRender e d) = searching d"
  "isKilling (doRender e d) = isKilling d"
  "killingPort (doRender e d) = killingPort d"
  unfolding doRender_def by (subst render_frame, simp)+

text \<open>
  C8. Whenever a port is selected and the first repaint (step 1) completes, the kill
  handler ends with \<^verbatim>\<open>isKilling\<close> false and \<^verbatim>\<open>killingPort\<close> null, whichever of
  the kill invocation, the gamification calls, the cache clearing, the refresh and the
  repaints throw, in the \<^verbatim>\<open>try\<close> block or in the \<^verbatim>\<open>catch\<close> block. With
  nothing selected the handler returns at once and leaves both fields as they were.
\<close>

theorem handleKill_clears_loading_state:
  "(fst (getSelectedPort d) \<noteq> None \<and> \<not> e_throws e FirstRender \<longrightarrow>
      isKilling (snd (handleKill e d)) = False \<and> killingPort (snd (handleKill e d)) = None) \<and>
   (fst (getSelectedPort d) = None \<longrightarrow>
      fst (handleKill e d) = False \<and>
      isKilling (snd (handleKill e d)) = isKilling d \<and>
      killingPort (snd (handleKill e d)) = killingPort d)"
proof -
  have fin: "isKilling (snd (renderStep e FinalRender (x\<lparr>isKilling := False, killingPort := None\<rparr>))) = False \<and>
             killingPort (snd (renderStep e FinalRender (x\<lparr>isKilling := False, killingPort := None\<rparr>))) = None" for x
    by (simp add: renderStep_def)
  obtain sel d0 where g: "getSelectedPort d = (sel, d0)"
    by (cases "getSelectedPort d")
  have d0: "isKilling d0 = isKilling d" "killingPort d0 = killingPort d"
    using g by (auto simp: getSelectedPort_def getFilteredPorts_def Let_def split: prod.splits if_splits option.splits)
  show ?thesis
  proof (cases sel)
    case None
    with g d0 show ?thesis by (simp add: handleKill_def)
  next
    case (Some s)
    show ?thesis
      using g Some fin
      by (auto simp: handleKill_def renderStep_def split: prod.splits bool.splits if_splits)
  qed
qed

lemma refresh_flags [simp]:
  "showHelp (refresh e d) = showHelp d"
  "showConfirm (refresh e d) = showConfirm d"
  "showLogs (refresh e d) = showLogs d"
  "showCommand (refresh e d) = showCommand d"
  "showStats (refresh e d) = showStats d"
  "searching (refresh e d) = searching d"
  "searchBuffer (refresh e d) = searchBuffer d"
  by (auto simp: refresh_def applySorting_def getFilteredPorts_def Let_def
      split: option.splits prod.splits if_splits)

theorem handleKill_clears_loading_state_witness:
  "fst (handleKill sampleEnv sampleDashboard) = True \<and>
   isKilling (snd (handleKill sampleEnv sampleDashboard)) = False \<and>
   killingPort (snd (handleKill sampleEnv sampleDashboard)) = None \<and>
   fst (handleKill sampleEnv initialDashboard) = False \<and>
   isKilling (snd (handleKill sampleEnv initialDashboard)) = False \<and>
   killingPort (snd (handleKill sampleEnv initialDashboard)) = None"
proof -
  have a: "fst (getSelectedPort sampleDashboard) \<noteq> None" "fst (getSelectedPort initialDashboard) = None"
    by code_simp+
  have b: "\<not> e_throws sampleEnv FirstRender"
    by (simp add: sampleEnv_def)
  have c: "fst (handleKill sampleEnv sampleDashboard) = True"
    by code_simp
  have d: "isKilling initialDashboard = False" "killingPort initialDashboard = None"
    by (simp_all add: initialDashboard_def)
  show ?thesis
    using handleKill_clears_loading_state [of sampleDashboard sampleEnv]
      handleKill_clears_loading_state [of initialDashboard sampleEnv] a b c d
    by simp
qed

text \<open>
  C2 fails on the code. The handler of \<^verbatim>\<open>?\<close> toggles \<^verbatim>\<open>showHelp\<close> without
  the \<^verbatim>\<open>isModalOpen()\<close> guard of the other handlers: from the started dashboard,
  \<^verbatim>\<open>/\<close> then \<^verbatim>\<open>?\<close> leaves search mode and the help modal both active, and
  \<^verbatim>\<open>s\<close> then \<^verbatim>\<open>?\<close> leaves the stats and the help modal both active,
  whatever the environment.
\<close>

theorem help_over_search:
  "searching (runInputs [(e1, Key ''/''), (e2, Key ''?'')] (start e0 initialDashboard)) \<and>
   showHelp (runInputs [(e1, Key ''/''), (e2, Key ''?'')] (start e0 initialDashboard)) \<and>
   showStats (runInputs [(e1, Key ''s''), (e2, Key ''?'')] (start e0 initialDashboard)) \<and>
   showHelp (runInputs [(e1, Key ''s''), (e2, Key ''?'')] (start e0 initialDashboard))"
  by (simp add: handleKey_def keyHandler_def wildcardHandler_def isModalOpen_def onStats_def
      start_def initialDashboard_def isDigit_def)

subsection \<open>Elapsed time\<close>

lemma dig12E:
  assumes "dig12 x"
  obtains a where "x = [a]" "isDigit a" | a b where "x = [a, b]" "isDigit a" "isDigit b"
proof -
  from assms have l: "length x = 1 \<or> length x = 2" and d: "list_all isDigit x"
    by (auto simp: dig12_def)
  from l show thesis
  proof
    assume "length x = 1"
    then obtain a where "x = [a]" by (cases x) auto
    with d that(1) show thesis by simp
  next
    assume "length x = 2"
    then obtain a b where "x = [a, b]"
      by (cases x; simp) (metis length_0_conv length_Suc_conv)
    with d that(2) show thesis by simp
  qed
qed

lemma dig2E:
  assumes "dig2 x"
  obtains a b where "x = [a, b]" "isDigit a" "isDigit b"
proof -
  from assms have l: "length x = 2" and d: "list_all isDigit x"
    by (auto simp: dig2_def)
  from l obtain a b where "x = [a, b]"
    by (cases x; simp) (metis length_0_conv length_Suc_conv)
  with d that show thesis by simp
qed

lemma digit_not_sep:
  "isDigit c \<Longrightarrow> c \<noteq> CHR '':'' \<and> c \<noteq> CHR ''-'' \<and> c \<noteq> CHR ''+'' \<and> \<not> isWhitespace c"
  by (auto simp: isDigit_def isWhitespace_def)

lemma searchEnd_self: "fullMatch p e \<Longrightarrow> searchEnd p e = Some e"
  by (cases e) auto

lemma searchEnd_append_Some:
  "fullMatch p e \<Longrightarrow> (\<forall>a b. pre = a @ b \<and> b \<noteq> [] \<longrightarrow> \<not> fullMatch p (b @ e)) \<Longrightarrow>
   searchEnd p (pre @ e) = Some e"
proof (induction pre)
  case Nil
  then show ?case by (simp add: searchEnd_self)
next
  case (Cons x pre)
  from Cons.prems(2) have "\<not> fullMatch p ((x # pre) @ e)" by blast
  moreover have "\<forall>a b. pre = a @ b \<and> b \<noteq> [] \<longrightarrow> \<not> fullMatch p (b @ e)"
    using Cons.prems(2) by (metis append_Cons)
  ultimately show ?case using Cons.IH Cons.prems(1) by simp
qed

lemma searchEnd_None:
  "(\<forall>a b. s = a @ b \<longrightarrow> \<not> fullMatch p b) \<Longrightarrow> searchEnd p s = None"
proof (induction s)
  case Nil
  then show ?case by simp
next
  case (Cons x s)
  from Cons.prems have "\<not> fullMatch p (x # s)" by blast
  moreover have "\<forall>a b. s = a @ b \<longrightarrow> \<not> fullMatch p b"
    using Cons.prems by (metis append_Cons)
  ultimately show ?case using Cons.IH by simp
qed

lemma pDays_len: "fullMatch pDays x \<Longrightarrow> 9 \<le> length x \<and> length x \<le> 11"
  by (auto simp: pDays_def split: list.splits)

lemma pHours_len: "fullMatch pHours x \<Longrightarrow> 7 \<le> length x \<and> length x \<le> 8"
  by (auto simp: pHours_def split: list.splits)

lemma pMinutes_len: "fullMatch pMinutes x \<Longrightarrow> 4 \<le> length x \<and> length x \<le> 5"
  by (auto simp: pMinutes_def split: list.splits)

lemma short_list:
  "b \<noteq> [] \<Longrightarrow> length b \<le> 2 \<Longrightarrow> (\<exists>x. b = [x]) \<or> (\<exists>x y. b = [x, y])"
proof -
  assume a: "b \<noteq> []" "length b \<le> 2"
  then obtain x b1 where b: "b = x # b1" by (cases b) auto
  with a have "length b1 \<le> 1" by simp
  then have "b1 = [] \<or> (\<exists>z. b1 = [z])" by (cases b1) auto
  with b show ?thesis by auto
qed

lemma digit_neq [simp]:
  "isDigit x \<Longrightarrow> (x = CHR ''-'') = False"
  "isDigit x \<Longrightarrow> (x = CHR '':'') = False"
  "isDigit x \<Longrightarrow> (CHR ''-'' = x) = False"
  "isDigit x \<Longrightarrow> (CHR '':'' = x) = False"
  by (auto simp: isDigit_def)

lemma sep_not_digit [simp]: "\<not> isDigit CHR ''-''" "\<not> isDigit CHR '':''"
  by (simp_all add: isDigit_def)

lemma match_days:
  assumes "dig12 d" "dig12 h" "dig2 m" "dig2 s" "length d = 2 \<or> \<not> endsDigit pre"
  shows "searchEnd pDays (pre @ d @ ''-'' @ h @ '':'' @ m @ '':'' @ s) =
           Some (d @ ''-'' @ h @ '':'' @ m @ '':'' @ s)"
proof -
  let ?e = "d @ ''-'' @ h @ '':'' @ m @ '':'' @ s"
  have len: "9 \<le> length ?e"
    using assms(1-4) by (auto simp: dig12_def dig2_def)
  have fm: "fullMatch pDays ?e"
    using assms(1-4) by (elim dig12E dig2E) (simp_all add: pDays_def)
  have "\<not> fullMatch pDays (b @ ?e)" if "pre = a @ b" "b \<noteq> []" for a b
  proof
    assume f: "fullMatch pDays (b @ ?e)"
    from pDays_len [OF f] len have "length b \<le> 2" by simp
    with that(2) consider x where "b = [x]" | x y where "b = [x, y]"
      using short_list by blast
    then show False
    proof cases
      case 1
      with that(1) have "endsDigit pre = isDigit x" by (simp add: endsDigit_def)
      with f 1 assms show False
        by (elim dig12E dig2E) (simp_all add: pDays_def)
    next
      case 2
      with f assms(1-4) show False
        by (elim dig12E dig2E) (simp_all add: pDays_def)
    qed
  qed
  with fm have "searchEnd pDays (pre @ ?e) = Some ?e"
    by (intro searchEnd_append_Some) auto
  then show ?thesis by simp
qed

lemma days_imp_hours:
  "fullMatch pDays x \<Longrightarrow> fullMatch pHours (drop 2 x) \<or> fullMatch pHours (drop 3 x)"
  by (auto simp: pDays_def pHours_def split: list.splits)

lemma hours_imp_minutes:
  "fullMatch pHours x \<Longrightarrow> fullMatch pMinutes (drop 2 x) \<or> fullMatch pMinutes (drop 3 x)"
  by (auto simp: pHours_def pMinutes_def split: list.splits)

lemma noSuffix_drop:
  assumes "noSuffix p t" "t = a @ b"
  shows "\<not> fullMatch p (drop n b)"
proof -
  have "t = (a @ take n b) @ drop n b" using assms(2) by simp
  with assms(1) show ?thesis unfolding noSuffix_def by blast
qed

lemma noSuffix_hours_days: "noSuffix pHours t \<Longrightarrow> noSuffix pDays t"
  unfolding noSuffix_def [of pDays]
  using days_imp_hours noSuffix_drop by blast

lemma noSuffix_minutes_hours: "noSuffix pMinutes t \<Longrightarrow> noSuffix pHours t"
  unfolding noSuffix_def [of pHours]
  using hours_imp_minutes noSuffix_drop by blast

lemma noSuffix_None: "noSuffix p t \<Longrightarrow> searchEnd p t = None"
  by (rule searchEnd_None) (simp add: noSuffix_def)

lemma minutes_timeLike: "fullMatch pMinutes b \<Longrightarrow> endsTimeLike (a @ b)"
  by (auto simp: pMinutes_def endsTimeLike_def split: list.splits)

lemma not_timeLike_noSuffix: "\<not> endsTimeLike t \<Longrightarrow> noSuffix pMinutes t"
  unfolding noSuffix_def using minutes_timeLike by blast

lemma suffix_split:
  assumes "a @ b' = pre @ e" "length e \<le> length b'"
  shows "\<exists>b. b' = b @ e \<and> pre = a @ b"
proof -
  from assms(1) obtain us where
    "(a = pre @ us \<and> us @ b' = e) \<or> (a @ us = pre \<and> b' = us @ e)"
    by (auto simp: append_eq_append_conv2)
  then show ?thesis
  proof
    assume h: "a = pre @ us \<and> us @ b' = e"
    with assms(2) have "us = []" by auto
    with h show ?thesis by auto
  next
    assume "a @ us = pre \<and> b' = us @ e"
    then show ?thesis by auto
  qed
qed

lemma short_list4:
  assumes "b \<noteq> []" "length b \<le> 4"
  shows "(\<exists>x. b = [x]) \<or> (\<exists>x y. b = [x, y]) \<or> (\<exists>x y z. b = [x, y, z]) \<or>
         (\<exists>x y z w. b = [x, y, z, w])"
proof -
  from assms obtain x b1 where b: "b = x # b1" by (cases b) auto
  show ?thesis
  proof (cases b1)
    case Nil
    with b show ?thesis by simp
  next
    case c1: (Cons y b2)
    show ?thesis
    proof (cases b2)
      case Nil
      with b c1 show ?thesis by simp
    next
      case c2: (Cons z b3)
      with assms b c1 have "length b3 \<le> 1" by simp
      then have "b3 = [] \<or> (\<exists>w. b3 = [w])" by (cases b3) auto
      with b c1 c2 show ?thesis by auto
    qed
  qed
qed

lemma hours_noDays:
  assumes "dig12 h" "dig2 m" "dig2 s" "length h = 2 \<or> \<not> endsDigit pre" "\<not> endsDay pre"
  shows "noSuffix pDays (pre @ h @ '':'' @ m @ '':'' @ s)"
  unfolding noSuffix_def
proof (intro allI impI notI)
  fix a b'
  let ?e = "h @ '':'' @ m @ '':'' @ s"
  assume t: "pre @ h @ '':'' @ m @ '':'' @ s = a @ b'" and f: "fullMatch pDays b'"
  have len: "7 \<le> length ?e \<and> length ?e \<le> 8"
    using assms(1-3) by (auto simp: dig12_def dig2_def)
  from pDays_len [OF f] len have "length ?e \<le> length b'" by simp
  with t obtain b where b: "b' = b @ ?e" "pre = a @ b"
    using suffix_split [of a b' pre ?e] by auto
  from pDays_len [OF f] b(1) len have "b \<noteq> []" "length b \<le> 4" by auto
  then have "(\<exists>x. b = [x]) \<or> (\<exists>x y. b = [x, y]) \<or> (\<exists>x y z. b = [x, y, z]) \<or>
         (\<exists>x y z w. b = [x, y, z, w])"
    by (rule short_list4)
  then consider x where "b = [x]" | x y where "b = [x, y]" | x y z where "b = [x, y, z]"
    | x y z w where "b = [x, y, z, w]"
    by (elim disjE exE) blast+
  then show False
  proof cases
    case 1
    with f b(1) assms(1-3) show False
      by (elim dig12E dig2E) (simp_all add: pDays_def)
  next
    case 2
    with b(2) have "endsDigit pre = isDigit y" "endsDay pre = (y = CHR ''-'' \<and> isDigit x)"
      by (simp_all add: endsDigit_def endsDay_def)
    with f b(1) 2 assms show False
      by (elim dig12E dig2E) (simp_all add: pDays_def)
  next
    case 3
    with b(2) have "endsDigit pre = isDigit z" "endsDay pre = (z = CHR ''-'' \<and> isDigit y)"
      by (simp_all add: endsDigit_def endsDay_def)
    with f b(1) 3 assms show False
      by (elim dig12E dig2E) (simp_all add: pDays_def)
  next
    case 4
    with b(2) have "endsDigit pre = isDigit w" "endsDay pre = (w = CHR ''-'' \<and> isDigit z)"
      by (simp_all add: endsDigit_def endsDay_def)
    with f b(1) 4 assms show False
      by (elim dig12E dig2E) (simp_all add: pDays_def)
  qed
qed

lemma match_hours:
  assumes "dig12 h" "dig2 m" "dig2 s" "length h = 2 \<or> \<not> endsDigit pre"
  shows "searchEnd pHours (pre @ h @ '':'' @ m @ '':'' @ s) = Some (h @ '':'' @ m @ '':'' @ s)"
proof -
  let ?e = "h @ '':'' @ m @ '':'' @ s"
  have len: "7 \<le> length ?e"
    using assms(1-3) by (auto simp: dig12_def dig2_def)
  have fm: "fullMatch pHours ?e"
    using assms(1-3) by (elim dig12E dig2E) (simp_all add: pHours_def)
  have "\<not> fullMatch pHours (b @ ?e)" if "pre = a @ b" "b \<noteq> []" for a b
  proof
    assume f: "fullMatch pHours (b @ ?e)"
    from pHours_len [OF f] len have "length b \<le> 1" by simp
    with that(2) obtain x where x: "b = [x]" by (cases b) auto
    with that(1) have "endsDigit pre = isDigit x" by (simp add: endsDigit_def)
    with f x assms show False
      by (elim dig12E dig2E) (simp_all add: pHours_def)
  qed
  with fm have "searchEnd pHours (pre @ ?e) = Some ?e"
    by (intro searchEnd_append_Some) auto
  then show ?thesis by simp
qed

lemma minutes_noHours:
  assumes "dig12 m" "dig2 s" "length m = 2 \<or> \<not> endsDigit pre" "\<not> (length m = 2 \<and> endsHour pre)"
  shows "noSuffix pHours (pre @ m @ '':'' @ s)"
  unfolding noSuffix_def
proof (intro allI impI notI)
  fix a b'
  let ?e = "m @ '':'' @ s"
  assume t: "pre @ m @ '':'' @ s = a @ b'" and f: "fullMatch pHours b'"
  have len: "4 \<le> length ?e \<and> length ?e \<le> 5"
    using assms(1-2) by (auto simp: dig12_def dig2_def)
  from pHours_len [OF f] len have "length ?e \<le> length b'" by simp
  with t obtain b where b: "b' = b @ ?e" "pre = a @ b"
    using suffix_split [of a b' pre ?e] by auto
  from pHours_len [OF f] b(1) len have "b \<noteq> []" "length b \<le> 4" by auto
  then have "(\<exists>x. b = [x]) \<or> (\<exists>x y. b = [x, y]) \<or> (\<exists>x y z. b = [x, y, z]) \<or>
         (\<exists>x y z w. b = [x, y, z, w])"
    by (rule short_list4)
  then consider x where "b = [x]" | x y where "b = [x, y]" | x y z where "b = [x, y, z]"
    | x y z w where "b = [x, y, z, w]"
    by (elim disjE exE) blast+
  then show False
  proof cases
    case 1
    with f b(1) assms(1-2) show False
      by (elim dig12E dig2E) (simp_all add: pHours_def)
  next
    case 2
    with b(2) have "endsDigit pre = isDigit y" "endsHour pre = (y = CHR '':'' \<and> isDigit x)"
      by (simp_all add: endsDigit_def endsHour_def)
    with f b(1) 2 assms show False
      by (elim dig12E dig2E) (simp_all add: pHours_def)
  next
    case 3
    with b(2) have "endsDigit pre = isDigit z" "endsHour pre = (z = CHR '':'' \<and> isDigit y)"
      by (simp_all add: endsDigit_def endsHour_def)
    with f b(1) 3 assms show False
      by (elim dig12E dig2E) (simp_all add: pHours_def)
  next
    case 4
    with b(2) have "endsDigit pre = isDigit w" "endsHour pre = (w = CHR '':'' \<and> isDigit z)"
      by (simp_all add: endsDigit_def endsHour_def)
    with f b(1) 4 assms show False
      by (elim dig12E dig2E) (simp_all add: pHours_def)
  qed
qed

lemma match_minutes:
  assumes "dig12 m" "dig2 s" "length m = 2 \<or> \<not> endsDigit pre"
  shows "searchEnd pMinutes (pre @ m @ '':'' @ s) = Some (m @ '':'' @ s)"
proof -
  let ?e = "m @ '':'' @ s"
  have len: "4 \<le> length ?e"
    using assms(1-2) by (auto simp: dig12_def dig2_def)
  have fm: "fullMatch pMinutes ?e"
    using assms(1-2) by (elim dig12E dig2E) (simp_all add: pMinutes_def)
  have "\<not> fullMatch pMinutes (b @ ?e)" if "pre = a @ b" "b \<noteq> []" for a b
  proof
    assume f: "fullMatch pMinutes (b @ ?e)"
    from pMinutes_len [OF f] len have "length b \<le> 1" by simp
    with that(2) obtain x where x: "b = [x]" by (cases b) auto
    with that(1) have "endsDigit pre = isDigit x" by (simp add: endsDigit_def)
    with f x assms show False
      by (elim dig12E dig2E) (simp_all add: pMinutes_def)
  qed
  with fm have "searchEnd pMinutes (pre @ ?e) = Some ?e"
    by (intro searchEnd_append_Some) auto
  then show ?thesis by simp
qed

subsection \<open>Conversion\<close>

lemma digitsValue_foldl_nonneg:
  "list_all isDigit ds \<Longrightarrow> 0 \<le> acc \<Longrightarrow>
   0 \<le> foldl (\<lambda>a c. 10 * a + (int (of_char c) - 48)) acc ds"
proof (induction ds arbitrary: acc)
  case Nil
  then show ?case by simp
next
  case (Cons c ds)
  from Cons.prems have "0 \<le> 10 * acc + (int (of_char c) - 48)"
    by (simp add: isDigit_def)
  with Cons show ?case by simp
qed

lemma digitsValue_nonneg: "list_all isDigit ds \<Longrightarrow> 0 \<le> digitsValue ds"
  unfolding digitsValue_def by (rule digitsValue_foldl_nonneg) simp_all

lemma takeWhile_all: "list_all P xs \<Longrightarrow> takeWhile P xs = xs"
  by (induction xs) auto

lemma parseInt_digits:
  assumes "ds \<noteq> []" "list_all isDigit ds"
  shows "parseInt ds = Some (digitsValue ds)"
proof -
  from assms obtain c cs where c: "ds = c # cs" "isDigit c" by (cases ds) auto
  then have w: "\<not> isWhitespace c" "c \<noteq> CHR ''-''" "c \<noteq> CHR ''+''"
    using digit_not_sep by blast+
  have tw: "takeWhile isDigit (c # cs) = c # cs"
    using assms(2) unfolding c(1) by (rule takeWhile_all)
  show ?thesis
    unfolding c(1) parseInt_def Let_def using w
    by (simp add: tw del: takeWhile.simps)
qed

lemma parseIntOr0_digits:
  "ds \<noteq> [] \<Longrightarrow> list_all isDigit ds \<Longrightarrow> parseIntOr0 ds = digitsValue ds"
  by (simp add: parseIntOr0_def parseInt_digits)

lemma split_digits_none: "list_all isDigit a \<Longrightarrow> split_by isEtimeSep a = [a]"
  by (induction a) (auto simp: isEtimeSep_def)

lemma split_digits_sep:
  "list_all isDigit a \<Longrightarrow> isEtimeSep x \<Longrightarrow>
   split_by isEtimeSep (a @ x # rest) = a # split_by isEtimeSep rest"
  by (induction a) (auto simp: isEtimeSep_def)

lemma isEtimeSep_simps [simp]: "isEtimeSep CHR '':''" "isEtimeSep CHR ''-''"
  by (simp_all add: isEtimeSep_def)

lemma dig_facts:
  "dig12 x \<Longrightarrow> x \<noteq> [] \<and> list_all isDigit x"
  "dig2 x \<Longrightarrow> x \<noteq> [] \<and> list_all isDigit x"
  by (auto simp: dig12_def dig2_def)

lemma parseEtime_days:
  assumes "dig12 d" "dig12 h" "dig2 m" "dig2 s"
  shows "parseEtime (d @ ''-'' @ h @ '':'' @ m @ '':'' @ s) =
     toLifetime (digitsValue d * 86400 + digitsValue h * 3600 + digitsValue m * 60 + digitsValue s)"
proof -
  note f = dig_facts(1) [OF assms(1)] dig_facts(1) [OF assms(2)] dig_facts(2) [OF assms(3)]
    dig_facts(2) [OF assms(4)]
  have sp: "split_by isEtimeSep (d @ ''-'' @ h @ '':'' @ m @ '':'' @ s) =
      [d, h, m, s]"
    using f by (simp add: split_digits_sep split_digits_none)
  have nn: "0 \<le> digitsValue d" "0 \<le> digitsValue h" "0 \<le> digitsValue m" "0 \<le> digitsValue s"
    using f by (simp_all add: digitsValue_nonneg)
  have ne: "d @ ''-'' @ h @ '':'' @ m @ '':'' @ s \<noteq> []" by simp
  show ?thesis
    unfolding parseEtime_def Let_def sp using f nn ne
    by (simp add: parseIntOr0_digits toLifetime_def)
qed

lemma parseEtime_hours:
  assumes "dig12 h" "dig2 m" "dig2 s"
  shows "parseEtime (h @ '':'' @ m @ '':'' @ s) =
     toLifetime (digitsValue h * 3600 + digitsValue m * 60 + digitsValue s)"
proof -
  note f = dig_facts(1) [OF assms(1)] dig_facts(2) [OF assms(2)] dig_facts(2) [OF assms(3)]
  have sp: "split_by isEtimeSep (h @ '':'' @ m @ '':'' @ s) = [h, m, s]"
    using f by (simp add: split_digits_sep split_digits_none)
  have nn: "0 \<le> digitsValue h" "0 \<le> digitsValue m" "0 \<le> digitsValue s"
    using f by (simp_all add: digitsValue_nonneg)
  have ne: "h @ '':'' @ m @ '':'' @ s \<noteq> []" using f by simp
  show ?thesis
    unfolding parseEtime_def Let_def sp using f nn ne
    by (simp add: parseIntOr0_digits toLifetime_def)
qed

lemma parseEtime_minutes:
  assumes "dig12 m" "dig2 s"
  shows "parseEtime (m @ '':'' @ s) = toLifetime (digitsValue m * 60 + digitsValue s)"
proof -
  note f = dig_facts(1) [OF assms(1)] dig_facts(2) [OF assms(2)]
  have sp: "split_by isEtimeSep (m @ '':'' @ s) = [m, s]"
    using f by (simp add: split_digits_sep split_digits_none)
  have nn: "0 \<le> digitsValue m" "0 \<le> digitsValue s"
    using f by (simp_all add: digitsValue_nonneg)
  have ne: "m @ '':'' @ s \<noteq> []" using f by simp
  show ?thesis
    unfolding parseEtime_def Let_def sp using f nn ne
    by (simp add: parseIntOr0_digits toLifetime_def)
qed

lemma line_lifetime:
  "parsePsLine line = Some (p, info) \<Longrightarrow>
   ps_lifetime info =
     (case firstMatch etimePatterns (trim line) of None \<Rightarrow> None | Some e \<Rightarrow> parseEtime e)"
  by (auto simp: parsePsLine_def Let_def split: if_splits option.splits)

lemma firstMatch_days:
  "searchEnd pDays t = Some e \<Longrightarrow> firstMatch etimePatterns t = Some e"
  by (simp add: etimePatterns_def)

lemma firstMatch_hours:
  "noSuffix pDays t \<Longrightarrow> searchEnd pHours t = Some e \<Longrightarrow> firstMatch etimePatterns t = Some e"
  by (simp add: etimePatterns_def noSuffix_None)

lemma firstMatch_minutes:
  "noSuffix pHours t \<Longrightarrow> searchEnd pMinutes t = Some e \<Longrightarrow> firstMatch etimePatterns t = Some e"
  by (simp add: etimePatterns_def noSuffix_None noSuffix_hours_days)

lemma firstMatch_none:
  "noSuffix pMinutes t \<Longrightarrow> firstMatch etimePatterns t = None"
  by (simp add: etimePatterns_def noSuffix_None noSuffix_hours_days noSuffix_minutes_hours)

text \<open>
  C7. \<^verbatim>\<open>parseEtime\<close> maps \<open>01:02:03\<close> to 3723, \<open>2-03:04:05\<close> to 183845,
  \<open>05:06\<close> to 306 and \<open>00:00\<close> to no lifetime. For every line of the
  \<^verbatim>\<open>ps\<close> output that yields an entry, with \<open>t\<close> the trimmed line:
  \<^item> if \<open>t\<close> ends in \<open>dd-hh:mm:ss\<close> (the day group taken as long as the pattern
    allows), the lifetime is \<open>days*86400 + hours*3600 + minutes*60 + seconds\<close>;
  \<^item> else if \<open>t\<close> ends in \<open>hh:mm:ss\<close>, it is \<open>hours*3600 + minutes*60 + seconds\<close>;
  \<^item> else if \<open>t\<close> ends in \<open>mm:ss\<close>, it is \<open>minutes*60 + seconds\<close>;
  \<^item> a total of zero gives no lifetime, and so does a line that does not end in a
    time (digit, colon, two digits), whatever its command text contains.
\<close>

theorem etime_parsing:
  "parseEtime ''01:02:03'' = Some 3723 \<and>
   parseEtime ''2-03:04:05'' = Some 183845 \<and>
   parseEtime ''05:06'' = Some 306 \<and>
   parseEtime ''00:00'' = None \<and>
   (parsePsLine line = Some (p, info) \<longrightarrow>
      (trim line = pre @ d @ ''-'' @ h @ '':'' @ m @ '':'' @ s \<and>
       dig12 d \<and> dig12 h \<and> dig2 m \<and> dig2 s \<and> (length d = 2 \<or> \<not> endsDigit pre) \<longrightarrow>
         ps_lifetime info =
           toLifetime (digitsValue d * 86400 + digitsValue h * 3600 + digitsValue m * 60 +
                       digitsValue s)) \<and>
      (trim line = pre @ h @ '':'' @ m @ '':'' @ s \<and>
       dig12 h \<and> dig2 m \<and> dig2 s \<and> (length h = 2 \<or> \<not> endsDigit pre) \<and> \<not> endsDay pre \<longrightarrow>
         ps_lifetime info = toLifetime (digitsValue h * 3600 + digitsValue m * 60 + digitsValue s)) \<and>
      (trim line = pre @ m @ '':'' @ s \<and>
       dig12 m \<and> dig2 s \<and> (length m = 2 \<or> \<not> endsDigit pre) \<and>
       \<not> (length m = 2 \<and> endsHour pre) \<longrightarrow>
         ps_lifetime info = toLifetime (digitsValue m * 60 + digitsValue s)) \<and>
      (\<not> endsTimeLike (trim line) \<longrightarrow> ps_lifetime info = None))"
proof -
  have v: "parseEtime ''01:02:03'' = Some 3723" "parseEtime ''2-03:04:05'' = Some 183845"
    "parseEtime ''05:06'' = Some 306" "parseEtime ''00:00'' = None"
    by code_simp+
  have g: "(trim line = pre @ d @ ''-'' @ h @ '':'' @ m @ '':'' @ s \<and>
       dig12 d \<and> dig12 h \<and> dig2 m \<and> dig2 s \<and> (length d = 2 \<or> \<not> endsDigit pre) \<longrightarrow>
         ps_lifetime info =
           toLifetime (digitsValue d * 86400 + digitsValue h * 3600 + digitsValue m * 60 +
                       digitsValue s)) \<and>
      (trim line = pre @ h @ '':'' @ m @ '':'' @ s \<and>
       dig12 h \<and> dig2 m \<and> dig2 s \<and> (length h = 2 \<or> \<not> endsDigit pre) \<and> \<not> endsDay pre \<longrightarrow>
         ps_lifetime info = toLifetime (digitsValue h * 3600 + digitsValue m * 60 + digitsValue s)) \<and>
      (trim line = pre @ m @ '':'' @ s \<and>
       dig12 m \<and> dig2 s \<and> (length m = 2 \<or> \<not> endsDigit pre) \<and>
       \<not> (length m = 2 \<and> endsHour pre) \<longrightarrow>
         ps_lifetime info = toLifetime (digitsValue m * 60 + digitsValue s)) \<and>
      (\<not> endsTimeLike (trim line) \<longrightarrow> ps_lifetime info = None)"
    if l: "parsePsLine line = Some (p, info)"
  proof -
    note lt = line_lifetime [OF l]
    have A: "ps_lifetime info =
           toLifetime (digitsValue d * 86400 + digitsValue h * 3600 + digitsValue m * 60 +
                       digitsValue s)"
      if "trim line = pre @ d @ ''-'' @ h @ '':'' @ m @ '':'' @ s" "dig12 d" "dig12 h" "dig2 m"
        "dig2 s" "length d = 2 \<or> \<not> endsDigit pre"
    proof -
      have "firstMatch etimePatterns (trim line) = Some (d @ ''-'' @ h @ '':'' @ m @ '':'' @ s)"
        unfolding that(1) using that(2-6) by (intro firstMatch_days match_days)
      then show ?thesis
        unfolding lt using parseEtime_days [OF that(2-5)] by simp
    qed
    have B: "ps_lifetime info = toLifetime (digitsValue h * 3600 + digitsValue m * 60 + digitsValue s)"
      if "trim line = pre @ h @ '':'' @ m @ '':'' @ s" "dig12 h" "dig2 m" "dig2 s"
        "length h = 2 \<or> \<not> endsDigit pre" "\<not> endsDay pre"
    proof -
      have "firstMatch etimePatterns (trim line) = Some (h @ '':'' @ m @ '':'' @ s)"
        unfolding that(1) using that(2-6) by (intro firstMatch_hours hours_noDays match_hours)
      then show ?thesis
        unfolding lt using parseEtime_hours [OF that(2-4)] by simp
    qed
    have C: "ps_lifetime info = toLifetime (digitsValue m * 60 + digitsValue s)"
      if "trim line = pre @ m @ '':'' @ s" "dig12 m" "dig2 s"
        "length m = 2 \<or> \<not> endsDigit pre" "\<not> (length m = 2 \<and> endsHour pre)"
    proof -
      have "firstMatch etimePatterns (trim line) = Some (m @ '':'' @ s)"
        unfolding that(1) using that(2-5) by (intro firstMatch_minutes minutes_noHours match_minutes)
      then show ?thesis
        unfolding lt using parseEtime_minutes [OF that(2-3)] by simp
    qed
    have D: "ps_lifetime info = None" if "\<not> endsTimeLike (trim line)"
      unfolding lt using that by (simp add: firstMatch_none not_timeLike_noSuffix)
    from A B C D show ?thesis by blast
  qed
  from v g show ?thesis by blast
qed

lemma psLines_parsed:
  "parsePsLine (psLines ! 0) =
     Some (4321, \<lparr>ps_command = ''node /srv/app.js --at 10:30:00'', ps_lifetime = Some 3723\<rparr>)"
  "parsePsLine (psLines ! 1) =
     Some (1, \<lparr>ps_command = ''/sbin/init splash'', ps_lifetime = Some 183845\<rparr>)"
  "parsePsLine (psLines ! 2) = Some (812, \<lparr>ps_command = ''sh -c sleep 5'', ps_lifetime = Some 306\<rparr>)"
  "parsePsLine (psLines ! 3) = Some (77, \<lparr>ps_command = ''/usr/sbin/sshd -D'', ps_lifetime = None\<rparr>)"
  by code_simp+

theorem etime_parsing_witness:
  "(\<exists>p info. parsePsLine (psLines ! 0) = Some (p, info) \<and> ps_lifetime info = Some 3723) \<and>
   (\<exists>p info. parsePsLine (psLines ! 1) = Some (p, info) \<and> ps_lifetime info = Some 183845) \<and>
   (\<exists>p info. parsePsLine (psLines ! 2) = Some (p, info) \<and> ps_lifetime info = Some 306) \<and>
   (\<exists>p info. parsePsLine (psLines ! 3) = Some (p, info) \<and> ps_lifetime info = None)"
proof -
  have t: "trim (psLines ! 0) = ''4321 node /srv/app.js --at 10:30:00 '' @ ''01'' @ '':'' @ ''02'' @ '':'' @ ''03''"
    "trim (psLines ! 1) = ''1 /sbin/init splash '' @ ''2'' @ ''-'' @ ''03'' @ '':'' @ ''04'' @ '':'' @ ''05''"
    "trim (psLines ! 2) = ''812 sh -c sleep 5 '' @ ''05'' @ '':'' @ ''06''"
    by code_simp+
  have c: "dig12 ''01''" "dig2 ''02''" "dig2 ''03''" "\<not> endsDay ''4321 node /srv/app.js --at 10:30:00 ''"
    "dig12 ''2''" "dig12 ''03''" "dig2 ''04''" "dig2 ''05''" "\<not> endsDigit ''1 /sbin/init splash ''"
    "dig12 ''05''" "dig2 ''06''" "\<not> endsHour ''812 sh -c sleep 5 ''"
    "\<not> endsTimeLike (trim (psLines ! 3))"
    by code_simp+
  have n: "toLifetime (digitsValue ''01'' * 3600 + digitsValue ''02'' * 60 + digitsValue ''03'') = Some 3723"
    "toLifetime (digitsValue ''2'' * 86400 + digitsValue ''03'' * 3600 + digitsValue ''04'' * 60 +
       digitsValue ''05'') = Some 183845"
    "toLifetime (digitsValue ''05'' * 60 + digitsValue ''06'') = Some 306"
    by code_simp+
  have "ps_lifetime \<lparr>ps_command = ''node /srv/app.js --at 10:30:00'', ps_lifetime = Some 3723\<rparr> = Some 3723"
    using etime_parsing [where line = "psLines ! 0" and p = 4321
        and info = "\<lparr>ps_command = ''node /srv/app.js --at 10:30:00'', ps_lifetime = Some 3723\<rparr>"
        and pre = "''4321 node /srv/app.js --at 10:30:00 ''" and h = "''01''" and m = "''02''"
        and s = "''03''" and d = "''00''"]
      psLines_parsed(1) t(1) c n
    by simp
  moreover have "ps_lifetime \<lparr>ps_command = ''/sbin/init splash'', ps_lifetime = Some 183845\<rparr> = Some 183845"
    using etime_parsing [where line = "psLines ! 1" and p = 1
        and info = "\<lparr>ps_command = ''/sbin/init splash'', ps_lifetime = Some 183845\<rparr>"
        and pre = "''1 /sbin/init splash ''" and d = "''2''" and h = "''03''" and m = "''04''"
        and s = "''05''"]
      psLines_parsed(2) t(2) c n
    by simp
  moreover have "ps_lifetime \<lparr>ps_command = ''sh -c sleep 5'', ps_lifetime = Some 306\<rparr> = Some 306"
    using etime_parsing [where line = "psLines ! 2" and p = 812
        and info = "\<lparr>ps_command = ''sh -c sleep 5'', ps_lifetime = Some 306\<rparr>"
        and pre = "''812 sh -c sleep 5 ''" and m = "''05''" and s = "''06''" and d = "''00''"
        and h = "''00''"]
      psLines_parsed(3) t(3) c n
    by simp
  moreover have "ps_lifetime \<lparr>ps_command = ''/usr/sbin/sshd -D'', ps_lifetime = None\<rparr> = None"
    using etime_parsing [where line = "psLines ! 3" and p = 77
        and info = "\<lparr>ps_command = ''/usr/sbin/sshd -D'', ps_lifetime = None\<rparr>"]
      psLines_parsed(4) c
    by simp
  ultimately show ?thesis
    using psLines_parsed by simp
qed

subsection \<open>The listing parsers\<close>

lemma mergeInfo_key [simp]:
  "port (mergeInfo batch q) = port q" "pid (mergeInfo batch q) = pid q"
  by (simp_all add: mergeInfo_def split: option.splits)

lemma lsofPorts_sample:
  "map (\<lambda>q. (port q, pid q)) (lsofPorts sampleLsof) =
     [(22, Some 1234), (22, Some 1234), (3000, Some 4321)]"
  by code_simp

text \<open>
  C4 fails on the code. \<^verbatim>\<open>parseLsofOutput\<close> pushes one entry per listening line and
  never deduplicates: for a daemon that listens on port 22 over IPv4 and over IPv6,
  \<^verbatim>\<open>lsof\<close> prints two lines with the same port and pid, and the snapshot holds the
  pair (22, 1234) twice, whatever metadata is merged in.
\<close>

theorem lsof_duplicate_port_pid:
  "map (\<lambda>q. (port q, pid q)) (parseLsofOutput batch sampleLsof) =
     [(22, Some 1234), (22, Some 1234), (3000, Some 4321)]"
proof -
  have "map (\<lambda>q. (port q, pid q)) (parseLsofOutput batch sampleLsof) =
      map (\<lambda>q. (port q, pid q)) (lsofPorts sampleLsof)"
    by (simp add: parseLsofOutput_def comp_def)
  then show ?thesis by (simp add: lsofPorts_sample)
qed

text \<open>
  The Windows parser does deduplicate: the keys of its result are distinct, hence so
  are the (port, pid) pairs.
\<close>

lemma dedupe_distinct:
  "distinct (map dedupKey seen) \<Longrightarrow> distinct (map dedupKey (dedupe seen qs))"
  by (induction qs arbitrary: seen) auto

lemma parseNetstatOutput_distinct:
  "distinct (map (\<lambda>q. (port q, pid q)) (parseNetstatOutput output))"
proof -
  have d: "distinct (map dedupKey (parseNetstatOutput output))"
    unfolding parseNetstatOutput_def by (rule dedupe_distinct) simp
  have "map dedupKey (parseNetstatOutput output) =
      map (\<lambda>k. intToString (fst k) @ ''-'' @ numToString (snd k))
        (map (\<lambda>q. (port q, pid q)) (parseNetstatOutput output))"
    by (simp add: dedupKey_def comp_def)
  with d have "distinct (map (\<lambda>k. intToString (fst k) @ ''-'' @ numToString (snd k))
        (map (\<lambda>q. (port q, pid q)) (parseNetstatOutput output)))"
    by simp
  then show ?thesis
    by (rule distinct_map [THEN iffD1, THEN conjunct1])
qed

text \<open>
  It also never lists anything: a line passes the state test only when its last column
  is \<^verbatim>\<open>LISTENING\<close>, and then the pid parsed from that same column is \<^verbatim>\<open>NaN\<close>
  and the line is dropped. (In the output of \<^verbatim>\<open>netstat -ano\<close> the last column is
  the pid and the state is the column before it.)
\<close>

lemma parseInt_LISTENING: "parseInt ''LISTENING'' = None"
  by code_simp

lemma parseNetstatLine_None: "parseNetstatLine line = None"
proof (cases "last (split_ws (trim line)) = ''LISTENING''")
  case True
  then show ?thesis
    unfolding parseNetstatLine_def Let_def
    by (simp add: parseInt_LISTENING split: option.splits)
next
  case False
  then show ?thesis
    unfolding parseNetstatLine_def Let_def by simp
qed

lemma netstat_lines_empty: "List.map_filter parseNetstatLine xs = []"
  by (induction xs) (simp_all add: List.map_filter_simps parseNetstatLine_None)

lemma parseNetstatOutput_empty: "parseNetstatOutput output = []"
  by (simp add: parseNetstatOutput_def netstat_lines_empty)

end
